theory Spec2Isabelle
  imports Main
begin

section \<open>The document store\<close>

text \<open>
  Every collection of the document store is a list of rows; a row is a record with the
  fields the resolvers read or write. The primary key of a row is its \<open>id\<close> field.
\<close>

record Team =
  team_id :: string
  team_name :: string
  team_orgId :: string
  team_isArchived :: bool

record TeamMember =
  tm_id :: string
  tm_teamId :: string
  tm_userId :: string
  tm_email :: string
  tm_isNotRemoved :: bool
  tm_isLead :: bool
  tm_preferredName :: string
  tm_picture :: string

record User =
  user_id :: string
  user_tms :: "string list"

record Project =
  project_id :: string
  project_teamId :: string

datatype notification_type = TEAM_ARCHIVED | REJOIN_TEAM

record Notification =
  n_id :: string
  n_orgId :: string
  n_startAt :: nat
  n_type :: notification_type
  n_userIds :: "string list"
  n_teamName :: string

datatype service = GITHUB | SLACK

record Provider =
  prov_teamId :: string
  prov_userId :: string
  prov_service :: service
  prov_isActive :: bool
  prov_accessToken :: string

record Integration =
  gh_id :: string
  gh_adminUserId :: string
  gh_createdAt :: nat
  gh_updatedAt :: nat
  gh_isActive :: bool
  gh_nameWithOwner :: string
  gh_teamId :: string
  gh_userIds :: "string list"

record store =
  tbl_Team :: "Team list"
  tbl_TeamMember :: "TeamMember list"
  tbl_User :: "User list"
  tbl_Project :: "Project list"
  tbl_Notification :: "Notification list"
  tbl_Provider :: "Provider list"
  tbl_GitHub :: "Integration list"

section \<open>Request context, errors and effects\<close>

record AuthToken =
  sub :: string
  tms :: "string list"

record DataLoader =
  share :: string

record req_context =
  authToken :: AuthToken
  dataLoader :: DataLoader
  socketId :: string

text \<open>
  The helpers of \<open>server/utils/authorization\<close> and \<open>universal/utils/relay\<close> are
  imported by the resolvers but are not part of the sources at hand, so the resolvers take
  them as parameters. A \<open>require...\<close> helper is awaited and its value discarded: the
  only way it denies is by throwing, which is the value \<open>False\<close> here.
\<close>

record helpers =
  getUserId :: "AuthToken \<Rightarrow> string"
  isTeamMember :: "AuthToken \<Rightarrow> string \<Rightarrow> bool"
  requireTeamLead :: "store \<Rightarrow> string \<Rightarrow> bool"
  requireOrgLeaderOrTeamMember :: "store \<Rightarrow> AuthToken \<Rightarrow> string \<Rightarrow> bool"
  toTeamMemberId :: "string \<Rightarrow> string \<Rightarrow> string"
  fromTeamMemberId :: "string \<Rightarrow> string \<times> string"

datatype error =
    AuthorizationError
  | ReqlError
  | TypeError
  | TeamAlreadyArchived

text \<open>
  A topic is a channel and the id of an entity, joined by a dot in the source. The channel
  names are constants of \<open>universal/utils/constants\<close> and
  \<open>universal/subscriptions/constants\<close>, which are not part of the sources at hand; only
  their identity matters here. A payload carries an operation id and a mutator id or lacks
  them.
\<close>

datatype channel = NEW_AUTH_TOKEN | NOTIFICATIONS_ADDED | TEAM | TEAM_MEMBER | GITHUB_REPO_ADDED

datatype data_type = UPDATED | ADDED

record subOptions =
  so_mutatorId :: string
  so_operationId :: string

record RepoTeamMember =
  rtm_preferredName :: string
  rtm_picture :: string
  rtm_id :: string

record Repo =
  repo_row :: Integration
  repo_userIds :: "string list"
  repo_teamMembers :: "RepoTeamMember list"

datatype event_body =
    NewAuthToken string "string list"
  | NotificationsAdded "Notification list"
  | TeamData string data_type
  | TeamMemberData string notification_type string string data_type
  | TeamNotificationData string string data_type
  | GithubRepoAdded Repo

record published =
  pub_channel :: channel
  pub_entity :: string
  pub_body :: event_body
  pub_operationId :: "string option"
  pub_mutatorId :: "string option"

datatype effect =
    Publish published
  | SegmentEvent string string string
  | Auth0UpdateAppMetadata string "string list"

text \<open>Spreading \<open>...subOptions\<close> into a payload: nothing is added when it is undefined.\<close>

definition spread_operationId :: "subOptions option \<Rightarrow> string option" where
  "spread_operationId so = map_option so_operationId so"

definition spread_mutatorId :: "subOptions option \<Rightarrow> string option" where
  "spread_mutatorId so = map_option so_mutatorId so"

section \<open>archiveTeam\<close>

definition publishAuthTokensWithoutTeam :: "(string \<times> string list) list \<Rightarrow> effect list" where
  "publishAuthTokensWithoutTeam userDocs =
     concat (map (\<lambda>(uid, utms).
       [Auth0UpdateAppMetadata uid utms,
        Publish \<lparr>pub_channel = NEW_AUTH_TOKEN, pub_entity = uid,
          pub_body = NewAuthToken uid utms,
          pub_operationId = None, pub_mutatorId = None\<rparr>]) userDocs)"

text \<open>
  \<open>notification.userIds[0]\<close> is undefined for an empty list; the topic is then built
  from the string \<open>undefined\<close>.
\<close>

definition publishTeamArchivedNotifications ::
  "Notification list \<Rightarrow> subOptions option \<Rightarrow> effect list" where
  "publishTeamArchivedNotifications notifications so =
     map (\<lambda>notification.
       Publish \<lparr>pub_channel = NOTIFICATIONS_ADDED,
         pub_entity = (case n_userIds notification of [] \<Rightarrow> ''undefined'' | userId # _ \<Rightarrow> userId),
         pub_body = NotificationsAdded [notification],
         pub_operationId = spread_operationId so,
         pub_mutatorId = spread_mutatorId so\<rparr>) notifications"

record ArchiveDoc =
  doc_projectCount :: nat
  doc_teamName :: string
  doc_teamOrgId :: string
  doc_userIds :: "string list"

record ArchiveResult =
  notificationData :: "ArchiveDoc option"
  teamResult :: "Team option"
  userDocs :: "(string \<times> string list) list"

definition get_Team :: "store \<Rightarrow> string \<Rightarrow> Team option" where
  "get_Team st teamId = find (\<lambda>t. team_id t = teamId) (tbl_Team st)"

definition projectCount :: "store \<Rightarrow> string \<Rightarrow> nat" where
  "projectCount st teamId = length (filter (\<lambda>p. project_teamId p = teamId) (tbl_Project st))"

definition activeUserIds :: "store \<Rightarrow> string \<Rightarrow> string list" where
  "activeUserIds st teamId =
     map tm_userId (filter (\<lambda>m. tm_teamId m = teamId \<and> tm_isNotRemoved m) (tbl_TeamMember st))"

text \<open>
  The query of lines 51 to 84. \<open>get(teamId).pluck(...)\<close> fails on a missing team before
  anything is written. The update of the User table returns the changed rows only; the update
  of an already archived team changes nothing, so \<open>('changes')(0)\<close> fails and
  \<open>default(null)\<close> yields null.
\<close>

definition archiveQuery :: "store \<Rightarrow> string \<Rightarrow> error + (ArchiveResult \<times> store)" where
  "archiveQuery st teamId =
     (case get_Team st teamId of
        None \<Rightarrow> Inl ReqlError
      | Some t \<Rightarrow>
          let doc = \<lparr>doc_projectCount = projectCount st teamId,
                     doc_teamName = team_name t, doc_teamOrgId = team_orgId t,
                     doc_userIds = activeUserIds st teamId\<rparr>;
              changed = filter (\<lambda>u. user_id u \<in> set (doc_userIds doc) \<and> teamId \<in> set (user_tms u))
                          (tbl_User st);
              uDocs = map (\<lambda>u. (user_id u, removeAll teamId (user_tms u))) changed;
              users' = map (\<lambda>u. if user_id u \<in> set (doc_userIds doc)
                                  then u\<lparr>user_tms := removeAll teamId (user_tms u)\<rparr> else u)
                         (tbl_User st);
              st1 = st\<lparr>tbl_User := users'\<rparr>
          in if doc_projectCount doc = 0 \<and> length (doc_userIds doc) = 1
             then Inr (\<lparr>notificationData = None, teamResult = Some t, userDocs = uDocs\<rparr>,
                       st1\<lparr>tbl_Team := filter (\<lambda>x. team_id x \<noteq> teamId) (tbl_Team st1),
                           tbl_TeamMember := filter (\<lambda>m. tm_teamId m \<noteq> teamId) (tbl_TeamMember st1)\<rparr>)
             else Inr (\<lparr>notificationData = Some doc,
                        teamResult = (if team_isArchived t then None
                                      else Some (t\<lparr>team_isArchived := True\<rparr>)),
                        userDocs = uDocs\<rparr>,
                       st1\<lparr>tbl_Team := map (\<lambda>x. if team_id x = teamId
                                                   then x\<lparr>team_isArchived := True\<rparr> else x)
                                             (tbl_Team st1)\<rparr>))"

text \<open>
  \<open>insert\<close> on a collection: a row whose primary key is already present is rejected and
  reported in the result, which the resolver does not read; the other rows are stored.
\<close>

fun insertNotifications :: "Notification list \<Rightarrow> Notification list \<Rightarrow> Notification list" where
  "insertNotifications tbl [] = tbl"
| "insertNotifications tbl (n # ns) =
     (if n_id n \<in> set (map n_id tbl) then insertNotifications tbl ns
      else insertNotifications (tbl @ [n]) ns)"

text \<open>The k-th call of \<open>shortid.generate()\<close> within a request is \<open>shortid k\<close>.\<close>

definition makeNotifications ::
  "(nat \<Rightarrow> string) \<Rightarrow> nat \<Rightarrow> ArchiveDoc \<Rightarrow> Notification list" where
  "makeNotifications shortid now doc =
     map (\<lambda>(k, notifiedUserId).
        \<lparr>n_id = shortid k, n_orgId = doc_teamOrgId doc, n_startAt = now,
         n_type = TEAM_ARCHIVED, n_userIds = [notifiedUserId],
         n_teamName = doc_teamName doc\<rparr>) (enumerate 0 (doc_userIds doc))"

record UpdateTeamPayload =
  payload_team :: Team

text \<open>
  The resolver. Line 97 calls \<open>publishTeamArchivedNotifications(notifications)\<close> with
  one argument, so the \<open>subOptions\<close> of that call is undefined, which is \<open>None\<close>
  here. A team that does not exist makes the query fail, and the failure propagates.
\<close>

definition archiveTeam ::
  "helpers \<Rightarrow> (nat \<Rightarrow> string) \<Rightarrow> nat \<Rightarrow> store \<Rightarrow> string \<Rightarrow> req_context \<Rightarrow>
     (error + UpdateTeamPayload) \<times> store \<times> effect list" where
  "archiveTeam h shortid now st teamId ctx =
     (let mutatorId = socketId ctx;
          operationId = share (dataLoader ctx);
          userId = getUserId h (authToken ctx);
          teamMemberId = toTeamMemberId h teamId userId
      in if \<not> requireTeamLead h st teamMemberId then (Inl AuthorizationError, st, [])
         else
           let ev0 = [SegmentEvent ''Archive Team'' userId teamId]
           in case archiveQuery st teamId of
                Inl e \<Rightarrow> (Inl e, st, ev0)
              | Inr (res, st1) \<Rightarrow>
                  let (st2, ev1) =
                        (case notificationData res of
                           None \<Rightarrow> (st1, [])
                         | Some doc \<Rightarrow>
                             let notifications = makeNotifications shortid now doc
                             in (st1\<lparr>tbl_Notification :=
                                       insertNotifications (tbl_Notification st1) notifications\<rparr>,
                                 publishTeamArchivedNotifications notifications None))
                  in case teamResult res of
                       None \<Rightarrow> (Inl TeamAlreadyArchived, st2, ev0 @ ev1)
                     | Some tr \<Rightarrow>
                         (Inr \<lparr>payload_team = tr\<lparr>team_isArchived := True\<rparr>\<rparr>, st2,
                          ev0 @ ev1 @
                          [Publish \<lparr>pub_channel = TEAM, pub_entity = teamId,
                             pub_body = TeamData teamId UPDATED,
                             pub_operationId = Some operationId,
                             pub_mutatorId = Some mutatorId\<rparr>] @
                          publishAuthTokensWithoutTeam (userDocs res)))"

text \<open>The events of a trace that were published on a given channel, in order.\<close>

definition publishedOn :: "channel \<Rightarrow> effect list \<Rightarrow> published list" where
  "publishedOn c ev = [p. Publish p \<leftarrow> ev, pub_channel p = c]"

section \<open>AddGitHubRepo\<close>

datatype AddGitHubRepoPayload =
    ErrorPayload string
  | GithubRepoAddedPayload Repo

text \<open>
  Modelled from the spec: \<open>standardError\<close> of \<open>server/utils/standardError\<close> is
  not part of the sources at hand. The spec calls what a resolver returns on an authorization
  or business-rule failure a structured error payload; here it carries the message of the
  error it was built from.
\<close>

definition standardError :: "string \<Rightarrow> string \<Rightarrow> AddGitHubRepoPayload" where
  "standardError message userId = ErrorPayload message"

text \<open>
  The answers of the source-control provider to the webhook calls. A \<open>fetch\<close> can
  fail, its body can fail to parse, and a parsed body is an array of some length or
  something else.
\<close>

datatype hooks_response = FetchFailed | BodyNotJson | JsonNotArray | JsonArray nat

datatype profile_response =
    ProfileFetchFailed
  | ProfileNotJson
  | ProfileErrors
  | ProfileMalformed
  | ProfileOrganization nat

record webhook_api =
  getRepoHooks :: "string \<Rightarrow> string \<Rightarrow> hooks_response"
  getOrgHooks :: "string \<Rightarrow> string \<Rightarrow> hooks_response"
  postOrgQuery :: "string \<Rightarrow> string \<Rightarrow> profile_response"

datatype request =
    GetRepoHooks string
  | PostRepoHook string nat
  | GetOrgHooks string
  | PostOrgQuery string
  | PostOrgHook string nat

datatype promise = Fulfilled | Rejected

text \<open>
  An async function that nobody awaits: the requests it sends and how its promise settles.
  The last \<open>fetch\<close> of either function, the one that creates the hook, is itself not
  awaited, so its failure does not reject the promise.
\<close>

definition createRepoWebhook ::
  "webhook_api \<Rightarrow> string \<Rightarrow> string \<Rightarrow> nat \<Rightarrow> promise \<times> request list" where
  "createRepoWebhook api accessToken nameWithOwner publicKey =
     (case getRepoHooks api accessToken nameWithOwner of
        FetchFailed \<Rightarrow> (Rejected, [GetRepoHooks nameWithOwner])
      | BodyNotJson \<Rightarrow> (Rejected, [GetRepoHooks nameWithOwner])
      | JsonNotArray \<Rightarrow> (Fulfilled, [GetRepoHooks nameWithOwner])
      | JsonArray n \<Rightarrow>
          if n = 0
          then (Fulfilled, [GetRepoHooks nameWithOwner, PostRepoHook nameWithOwner publicKey])
          else (Fulfilled, [GetRepoHooks nameWithOwner]))"

definition createOrgWebhook ::
  "webhook_api \<Rightarrow> string \<Rightarrow> string \<Rightarrow> promise \<times> request list" where
  "createOrgWebhook api accessToken nameWithOwner =
     (let owner = takeWhile (\<lambda>c. c \<noteq> CHR ''/'') nameWithOwner
      in case getOrgHooks api accessToken owner of
        FetchFailed \<Rightarrow> (Rejected, [GetOrgHooks owner])
      | BodyNotJson \<Rightarrow> (Rejected, [GetOrgHooks owner])
      | JsonNotArray \<Rightarrow> (Fulfilled, [GetOrgHooks owner])
      | JsonArray n \<Rightarrow>
          if n = 0
          then (case postOrgQuery api accessToken owner of
                  ProfileOrganization databaseId \<Rightarrow>
                    (Fulfilled, [GetOrgHooks owner, PostOrgQuery owner, PostOrgHook owner databaseId])
                | _ \<Rightarrow> (Rejected, [GetOrgHooks owner, PostOrgQuery owner]))
          else (Fulfilled, [GetOrgHooks owner]))"

text \<open>
  The answer of \<open>tokenCanAccessRepo\<close>: errors, or data that holds a repository. Data
  without a repository is a malformed answer; destructuring it (line 110) throws.
\<close>

record Repository =
  viewerCanAdminister :: bool
  databaseId :: nat

record ViewerPermissions =
  vp_data :: "Repository option"
  vp_errors :: bool

fun findIndex :: "('a \<Rightarrow> bool) \<Rightarrow> 'a list \<Rightarrow> nat option" where
  "findIndex P [] = None"
| "findIndex P (x # xs) = (if P x then Some 0 else map_option Suc (findIndex P xs))"

definition rehydrate :: "string \<Rightarrow> nat \<Rightarrow> Integration \<Rightarrow> Integration" where
  "rehydrate userId now g =
     g\<lparr>gh_adminUserId := userId, gh_isActive := True, gh_userIds := [userId], gh_updatedAt := now\<rparr>"

text \<open>
  The query of lines 124 to 159. An insert whose primary key is taken and an update that
  changes nothing both leave \<open>changes\<close> empty, so \<open>('changes')(0)\<close> fails and the
  query is rejected.
\<close>

definition createOrRehydrate ::
  "string \<Rightarrow> nat \<Rightarrow> string \<Rightarrow> string \<Rightarrow> string \<Rightarrow> store \<Rightarrow> error + (Integration \<times> store)" where
  "createOrRehydrate newId now userId teamId nameWithOwner st =
     (case map_option gh_id
             (find (\<lambda>g. gh_teamId g = teamId \<and> gh_nameWithOwner g = nameWithOwner) (tbl_GitHub st)) of
        None \<Rightarrow>
          (if newId \<in> set (map gh_id (tbl_GitHub st)) then Inl ReqlError
           else
             let row = \<lparr>gh_id = newId, gh_adminUserId = userId, gh_createdAt = now,
                        gh_updatedAt = now, gh_isActive = True, gh_nameWithOwner = nameWithOwner,
                        gh_teamId = teamId, gh_userIds = [userId]\<rparr>
             in Inr (row, st\<lparr>tbl_GitHub := tbl_GitHub st @ [row]\<rparr>))
      | Some integrationId \<Rightarrow>
          (case find (\<lambda>g. gh_id g = integrationId) (tbl_GitHub st) of
             None \<Rightarrow> Inl ReqlError
           | Some g \<Rightarrow>
               if rehydrate userId now g = g then Inl ReqlError
               else Inr (rehydrate userId now g,
                         st\<lparr>tbl_GitHub := map (\<lambda>x. if gh_id x = integrationId
                                                      then rehydrate userId now x else x)
                                               (tbl_GitHub st)\<rparr>)))"

text \<open>The active GitHub providers of a team, as the resolver reads them.\<close>

definition allTeamProviders :: "store \<Rightarrow> string \<Rightarrow> Provider list" where
  "allTeamProviders st teamId =
     filter (\<lambda>p. prov_teamId p = teamId \<and> prov_service p = GITHUB \<and> prov_isActive p)
       (tbl_Provider st)"

text \<open>
  \<open>tokenCanAccessRepo\<close> and \<open>maybeJoinRepos\<close> are imported and not part of the
  sources at hand: the resolver takes them as parameters. \<open>maybeJoinRepos\<close> is a
  mutation, so it returns a store next to its value.
\<close>

definition AddGitHubRepo ::
  "helpers \<Rightarrow> webhook_api \<Rightarrow> (string \<Rightarrow> string \<Rightarrow> ViewerPermissions) \<Rightarrow>
   (store \<Rightarrow> Integration list \<Rightarrow> Provider list \<Rightarrow> (string \<times> string list) list \<times> store) \<Rightarrow>
   (nat \<Rightarrow> string) \<Rightarrow> nat \<Rightarrow> store \<Rightarrow> string \<Rightarrow> string \<Rightarrow> req_context \<Rightarrow>
     (error + AddGitHubRepoPayload) \<times> store \<times> effect list \<times> (promise \<times> request list) list" where
  "AddGitHubRepo h api tokenCanAccessRepo maybeJoinRepos shortid now st teamId nameWithOwner ctx =
     (let mutatorId = socketId ctx;
          viewerId = getUserId h (authToken ctx)
      in if \<not> isTeamMember h (authToken ctx) teamId
         then (Inr (standardError ''Team not found'' viewerId), st, [], [])
         else
           let userId = getUserId h (authToken ctx);
               providers = allTeamProviders st teamId
           in case findIndex (\<lambda>provider. prov_userId provider = userId) providers of
                None \<Rightarrow> (Inr (standardError ''GitHub Provider not found'' viewerId), st, [], [])
              | Some viewerProviderIdx \<Rightarrow>
                  let accessToken = prov_accessToken (providers ! viewerProviderIdx);
                      viewerPermissions = tokenCanAccessRepo accessToken nameWithOwner
                  in if vp_errors viewerPermissions
                     then (Inr (standardError ''Unknown GitHub error'' viewerId), st, [], [])
                     else case vp_data viewerPermissions of
                       None \<Rightarrow> (Inl TypeError, st, [], [])
                     | Some repository \<Rightarrow>
                         if \<not> viewerCanAdminister repository
                         then (Inr (standardError ''Not GitHub Administrator'' viewerId), st, [], [])
                         else
                           let background =
                                 [createRepoWebhook api accessToken nameWithOwner (databaseId repository),
                                  createOrgWebhook api accessToken nameWithOwner]
                           in case createOrRehydrate (shortid 0) now userId teamId nameWithOwner st of
                                Inl e \<Rightarrow> (Inl e, st, [], background)
                              | Inr (newRepo, st1) \<Rightarrow>
                                  let teamMemberProviders =
                                        take viewerProviderIdx providers @
                                        drop (viewerProviderIdx + 1) providers;
                                      (usersAndIntegrations, st2) =
                                        maybeJoinRepos st1 [newRepo] teamMemberProviders;
                                      userIds =
                                        map fst (filter (\<lambda>(userIdToAdd, integrations).
                                                    length integrations > 0) usersAndIntegrations)
                                        @ [userId];
                                      repo = \<lparr>repo_row = newRepo, repo_userIds = userIds,
                                        repo_teamMembers =
                                          map (\<lambda>m. \<lparr>rtm_preferredName = tm_preferredName m,
                                                    rtm_picture = tm_picture m, rtm_id = tm_id m\<rparr>)
                                            (filter (\<lambda>m. tm_teamId m = teamId)
                                               (concat (map (\<lambda>u. filter (\<lambda>m. tm_userId m = u)
                                                                    (tbl_TeamMember st2)) userIds)))\<rparr>
                                  in (Inr (GithubRepoAddedPayload repo), st2,
                                      [Publish \<lparr>pub_channel = GITHUB_REPO_ADDED, pub_entity = teamId,
                                         pub_body = GithubRepoAdded repo,
                                         pub_operationId = None,
                                         pub_mutatorId = Some mutatorId\<rparr>],
                                      background))"

text \<open>
  What identifies the rows of the integration table: the primary key of each row with the
  pair it is looked up by. The rows of one pair are \<open>rowsFor\<close>.
\<close>

definition integrationRows :: "store \<Rightarrow> (string \<times> string \<times> string) list" where
  "integrationRows st = map (\<lambda>g. (gh_id g, gh_teamId g, gh_nameWithOwner g)) (tbl_GitHub st)"

definition rowsFor :: "store \<Rightarrow> string \<Rightarrow> string \<Rightarrow> Integration list" where
  "rowsFor st teamId nameWithOwner =
     filter (\<lambda>g. gh_teamId g = teamId \<and> gh_nameWithOwner g = nameWithOwner) (tbl_GitHub st)"


text \<open>Whether a run of the resolver returned the repository.\<close>

fun added :: "error + AddGitHubRepoPayload \<Rightarrow> bool" where
  "added (Inr (GithubRepoAddedPayload repo)) = True"
| "added _ = False"

text \<open>
  What the caller, the store and the subscribers get from a run of the resolver: everything
  but the requests that run in the background.
\<close>

definition foreground :: "'a \<times> 'b \<times> 'c \<times> 'd \<Rightarrow> 'a \<times> 'b \<times> 'c" where
  "foreground run = (fst run, fst (snd run), fst (snd (snd run)))"

text \<open>The requests that create a hook.\<close>

fun isHookPost :: "request \<Rightarrow> bool" where
  "isHookPost (PostRepoHook nameWithOwner publicKey) = True"
| "isHookPost (PostOrgHook owner publicKey) = True"
| "isHookPost _ = False"

section \<open>inviteTeamMembers\<close>

record Invitee =
  inv_email :: string

record Reactivation =
  re_notificationId :: string
  re_teamMemberId :: string
  re_preferredName :: string

record 'r InviteTeamMembersPayload =
  reactivatedTeamMemberIds :: "string list"
  results :: 'r

text \<open>
  The resolver. The safe mutation it delegates to is imported from
  \<open>server/safeMutations/inviteTeamMembers\<close>; the resolver takes it as the parameter
  \<open>safeMutation\<close>.
\<close>

definition inviteTeamMembers_resolve ::
  "helpers \<Rightarrow>
   (store \<Rightarrow> Invitee list \<Rightarrow> string \<Rightarrow> string \<Rightarrow> subOptions \<Rightarrow>
      (Reactivation list \<times> 'r) \<times> store \<times> effect list) \<Rightarrow>
   store \<Rightarrow> Invitee list \<Rightarrow> string \<Rightarrow> req_context \<Rightarrow>
     (error + 'r InviteTeamMembersPayload) \<times> store \<times> effect list" where
  "inviteTeamMembers_resolve h safeMutation st invitees teamId ctx =
     (let mutatorId = socketId ctx;
          operationId = share (dataLoader ctx)
      in if \<not> requireOrgLeaderOrTeamMember h st (authToken ctx) teamId
         then (Inl AuthorizationError, st, [])
         else
           let viewerId = getUserId h (authToken ctx);
               so = \<lparr>so_mutatorId = mutatorId, so_operationId = operationId\<rparr>;
               ((reactivations, res), st1, ev1) = safeMutation st invitees teamId viewerId so;
               ev2 = concat (map (\<lambda>re.
                   [Publish \<lparr>pub_channel = TEAM_MEMBER, pub_entity = teamId,
                      pub_body = TeamMemberData (re_teamMemberId re) REJOIN_TEAM teamId
                                   (re_preferredName re) ADDED,
                      pub_operationId = spread_operationId (Some so),
                      pub_mutatorId = spread_mutatorId (Some so)\<rparr>,
                    Publish \<lparr>pub_channel = TEAM,
                      pub_entity = fst (fromTeamMemberId h (re_teamMemberId re)),
                      pub_body = TeamNotificationData teamId (re_notificationId re) ADDED,
                      pub_operationId = spread_operationId (Some so),
                      pub_mutatorId = spread_mutatorId (Some so)\<rparr>]) reactivations)
           in (Inr \<lparr>reactivatedTeamMemberIds = map re_teamMemberId reactivations,
                    results = res\<rparr>, st1, ev1 @ ev2))"

text \<open>
  Modelled from the spec: the rows that a re-invitation reactivates; the lookup is part of the
  safe mutation \<open>inviteTeamMembers\<close> of \<open>server/safeMutations\<close>, which is not
  part of the sources at hand. The spec speaks of re-inviting a previously removed team
  member, and of the TeamMember row carrying the removal flag \<open>isNotRemoved\<close> instead
  of being deleted. So: the rows of the team that are removed and whose email is among the
  invitees.
\<close>

definition removedInvitees :: "store \<Rightarrow> Invitee list \<Rightarrow> string \<Rightarrow> TeamMember list" where
  "removedInvitees st invitees teamId =
     filter (\<lambda>m. tm_teamId m = teamId \<and> \<not> tm_isNotRemoved m
                \<and> tm_email m \<in> set (map inv_email invitees)) (tbl_TeamMember st)"

text \<open>
  Modelled from the spec: the safe mutation \<open>inviteTeamMembers\<close> of
  \<open>server/safeMutations\<close> is not part of the sources at hand. The spec says that
  re-inviting a previously removed team member marks them active again rather than creating a
  duplicate TeamMember row. So: every removed row of an invitee gets its flag set and is
  reported as a reactivation, no row is inserted, and the other invitees are reported in
  \<open>results\<close>. What the spec does not describe of it (invitation emails, approvals,
  the persisted notification) is left out.
\<close>

definition inviteTeamMembers ::
  "(nat \<Rightarrow> string) \<Rightarrow> store \<Rightarrow> Invitee list \<Rightarrow> string \<Rightarrow> string \<Rightarrow> subOptions \<Rightarrow>
     (Reactivation list \<times> string list) \<times> store \<times> effect list" where
  "inviteTeamMembers shortid st invitees teamId viewerId so =
     (let removed = removedInvitees st invitees teamId;
          reactivations = map (\<lambda>(k, m). \<lparr>re_notificationId = shortid k, re_teamMemberId = tm_id m,
                                          re_preferredName = tm_preferredName m\<rparr>)
                            (enumerate 0 removed);
          members = map (\<lambda>m. if m \<in> set removed then m\<lparr>tm_isNotRemoved := True\<rparr> else m)
                      (tbl_TeamMember st)
      in ((reactivations,
           filter (\<lambda>e. e \<notin> set (map tm_email removed)) (map inv_email invitees)),
          st\<lparr>tbl_TeamMember := members\<rparr>, []))"

section \<open>Sample requests\<close>

text \<open>
  Concrete helpers, stores and a request context on which the resolvers are run below. The
  helpers read the token the way its fields suggest: the user is \<open>sub\<close>, the teams are
  \<open>tms\<close>, a team member id is the user id and the team id joined by two colons, and the
  team lead is the member row flagged \<open>isLead\<close>.
\<close>

definition ex_helpers :: helpers where
  "ex_helpers =
     \<lparr>getUserId = sub,
      isTeamMember = (\<lambda>tok teamId. teamId \<in> set (tms tok)),
      requireTeamLead = (\<lambda>st teamMemberId.
         case find (\<lambda>m. tm_id m = teamMemberId) (tbl_TeamMember st) of
           None \<Rightarrow> False | Some m \<Rightarrow> tm_isLead m),
      requireOrgLeaderOrTeamMember = (\<lambda>st tok teamId. teamId \<in> set (tms tok)),
      toTeamMemberId = (\<lambda>teamId userId. userId @ ''::'' @ teamId),
      fromTeamMemberId = (\<lambda>teamMemberId.
         (takeWhile (\<lambda>c. c \<noteq> CHR '':'') teamMemberId,
          drop 2 (dropWhile (\<lambda>c. c \<noteq> CHR '':'') teamMemberId)))\<rparr>"

definition ex_shortid :: "nat \<Rightarrow> string" where
  "ex_shortid k = replicate (Suc k) (CHR ''n'')"

definition ex_ctx :: "string \<Rightarrow> req_context" where
  "ex_ctx userId =
     \<lparr>authToken = \<lparr>sub = userId, tms = [''t1'']\<rparr>, dataLoader = \<lparr>share = ''op1''\<rparr>,
      socketId = ''sock1''\<rparr>"

definition ex_outsider :: req_context where
  "ex_outsider =
     \<lparr>authToken = \<lparr>sub = ''u9'', tms = []\<rparr>, dataLoader = \<lparr>share = ''op9''\<rparr>,
      socketId = ''sock9''\<rparr>"

definition ex_member :: "string \<Rightarrow> bool \<Rightarrow> bool \<Rightarrow> TeamMember" where
  "ex_member userId lead active =
     \<lparr>tm_id = userId @ ''::t1'', tm_teamId = ''t1'', tm_userId = userId,
      tm_email = userId @ ''@example.com'', tm_isNotRemoved = active, tm_isLead = lead,
      tm_preferredName = userId, tm_picture = ''pic''\<rparr>"

definition ex_team :: "bool \<Rightarrow> Team" where
  "ex_team archived =
     \<lparr>team_id = ''t1'', team_name = ''Team One'', team_orgId = ''o1'', team_isArchived = archived\<rparr>"

definition ex_store :: "bool \<Rightarrow> TeamMember list \<Rightarrow> store" where
  "ex_store archived members =
     \<lparr>tbl_Team = [ex_team archived],
      tbl_TeamMember = members,
      tbl_User = map (\<lambda>m. \<lparr>user_id = tm_userId m, user_tms = [''t1'']\<rparr>) members,
      tbl_Project = [],
      tbl_Notification = [],
      tbl_Provider = [\<lparr>prov_teamId = ''t1'', prov_userId = ''u1'', prov_service = GITHUB,
                       prov_isActive = True, prov_accessToken = ''token1''\<rparr>],
      tbl_GitHub = []\<rparr>"

text \<open>A team with its lead only, a team of three, and a team of two that is archived.\<close>

definition ex_solo :: store where
  "ex_solo = ex_store False [ex_member ''u1'' True True]"

definition ex_trio :: store where
  "ex_trio = ex_store False
     [ex_member ''u1'' True True, ex_member ''u2'' False True, ex_member ''u3'' False True]"

definition ex_archived :: store where
  "ex_archived = ex_store True [ex_member ''u1'' True True, ex_member ''u2'' False True]"

text \<open>
  Sample answers of the source-control provider: one where every call succeeds and no hook
  exists yet, one where every call fails; a permission check that grants administration; and
  a join step that finds nobody else to join.
\<close>

definition ex_api_up :: webhook_api where
  "ex_api_up =
     \<lparr>getRepoHooks = (\<lambda>accessToken nameWithOwner. JsonArray 0),
      getOrgHooks = (\<lambda>accessToken owner. JsonArray 0),
      postOrgQuery = (\<lambda>accessToken owner. ProfileOrganization 7)\<rparr>"

definition ex_api_down :: webhook_api where
  "ex_api_down =
     \<lparr>getRepoHooks = (\<lambda>accessToken nameWithOwner. FetchFailed),
      getOrgHooks = (\<lambda>accessToken owner. FetchFailed),
      postOrgQuery = (\<lambda>accessToken owner. ProfileFetchFailed)\<rparr>"

definition ex_tokenCanAccessRepo :: "string \<Rightarrow> string \<Rightarrow> ViewerPermissions" where
  "ex_tokenCanAccessRepo accessToken nameWithOwner =
     \<lparr>vp_data = Some \<lparr>viewerCanAdminister = True, databaseId = 42\<rparr>, vp_errors = False\<rparr>"

definition ex_maybeJoinRepos ::
  "store \<Rightarrow> Integration list \<Rightarrow> Provider list \<Rightarrow> (string \<times> string list) list \<times> store" where
  "ex_maybeJoinRepos st integrations providers = ([], st)"

text \<open>
  The team of three with a repository that was linked by another member and is inactive, and
  the team with a member that was removed.
\<close>

definition ex_integration :: Integration where
  "ex_integration =
     \<lparr>gh_id = ''g1'', gh_adminUserId = ''u2'', gh_createdAt = 1, gh_updatedAt = 1,
      gh_isActive = False, gh_nameWithOwner = ''acme/site'', gh_teamId = ''t1'',
      gh_userIds = [''u2'', ''u3'']\<rparr>"

definition ex_linked :: store where
  "ex_linked = ex_trio\<lparr>tbl_GitHub := [ex_integration]\<rparr>"

definition ex_removed :: store where
  "ex_removed = ex_store False [ex_member ''u1'' True True, ex_member ''u2'' False False]"

text \<open>
  Two requests in a row for the same repository: the lead adds it to the team of three while
  the provider answers, then adds it again a moment later while every webhook call fails.
\<close>

definition ex_first ::
  "(error + AddGitHubRepoPayload) \<times> store \<times> effect list \<times> (promise \<times> request list) list" where
  "ex_first = AddGitHubRepo ex_helpers ex_api_up ex_tokenCanAccessRepo ex_maybeJoinRepos
     ex_shortid 7 ex_trio ''t1'' ''acme/site'' (ex_ctx ''u1'')"

definition ex_second ::
  "(error + AddGitHubRepoPayload) \<times> store \<times> effect list \<times> (promise \<times> request list) list" where
  "ex_second = AddGitHubRepo ex_helpers ex_api_down ex_tokenCanAccessRepo ex_maybeJoinRepos
     ex_shortid 8 (fst (snd ex_first)) ''t1'' ''acme/site'' (ex_ctx ''u1'')"


section \<open>Properties of archiveTeam\<close>

lemma find_filter_other:
  "find (\<lambda>t. team_id t = k) (filter (\<lambda>x. team_id x \<noteq> k) xs) = None"
  by (induction xs) auto

lemma find_archived:
  "find (\<lambda>t. team_id t = k)
     (map (\<lambda>x. if team_id x = k then x\<lparr>team_isArchived := True\<rparr> else x) xs)
   = map_option (\<lambda>x. x\<lparr>team_isArchived := True\<rparr>) (find (\<lambda>t. team_id t = k) xs)"
  by (induction xs) auto

lemma ids_archived:
  "map team_id (map (\<lambda>x. if team_id x = k then x\<lparr>team_isArchived := True\<rparr> else x) xs)
   = map team_id xs"
  by (induction xs) auto

lemma archiveQuery_total:
  "get_Team st teamId = Some t \<Longrightarrow> \<exists>res st1. archiveQuery st teamId = Inr (res, st1)"
  by (simp add: archiveQuery_def Let_def)

lemma archiveQuery_hard:
  assumes "get_Team st teamId = Some t"
    and "projectCount st teamId = 0" "length (activeUserIds st teamId) = 1"
    and "archiveQuery st teamId = Inr (res, st1)"
  shows "notificationData res = None" "teamResult res = Some t"
    "tbl_Team st1 = filter (\<lambda>x. team_id x \<noteq> teamId) (tbl_Team st)"
    "tbl_TeamMember st1 = filter (\<lambda>m. tm_teamId m \<noteq> teamId) (tbl_TeamMember st)"
    "tbl_Notification st1 = tbl_Notification st"
  using assms by (auto simp add: archiveQuery_def Let_def)

lemma archiveQuery_soft:
  assumes "get_Team st teamId = Some t"
    and "\<not> (projectCount st teamId = 0 \<and> length (activeUserIds st teamId) = 1)"
    and "archiveQuery st teamId = Inr (res, st1)"
  shows "notificationData res =
           Some \<lparr>doc_projectCount = projectCount st teamId, doc_teamName = team_name t,
                  doc_teamOrgId = team_orgId t, doc_userIds = activeUserIds st teamId\<rparr>"
    "teamResult res = (if team_isArchived t then None else Some (t\<lparr>team_isArchived := True\<rparr>))"
    "tbl_Team st1 =
       map (\<lambda>x. if team_id x = teamId then x\<lparr>team_isArchived := True\<rparr> else x) (tbl_Team st)"
    "tbl_TeamMember st1 = tbl_TeamMember st"
    "tbl_Notification st1 = tbl_Notification st"
  using assms by (auto simp add: archiveQuery_def Let_def)

lemma archiveTeam_tables:
  assumes "requireTeamLead h st (toTeamMemberId h teamId (getUserId h (authToken ctx)))"
    and "archiveQuery st teamId = Inr (res, st1)"
    and "archiveTeam h shortid now st teamId ctx = (r, st', ev)"
  shows "tbl_Team st' = tbl_Team st1" "tbl_TeamMember st' = tbl_TeamMember st1"
  using assms by (auto simp add: archiveTeam_def Let_def split: option.splits prod.splits)

text \<open>
  C1. An archiveTeam call that passes the team-lead check, on a team that exists: when the
  team has no Project row and exactly one TeamMember row that is not removed, the Team row
  and every TeamMember row of the team are gone from the store afterwards; in every other
  case (more projects, more members, or no active member at all) the Team row is there with
  \<open>isArchived\<close> set, no Team row was added or dropped, and the TeamMember table is
  untouched.
\<close>

theorem archiveTeam_delete_or_archive:
  assumes auth: "requireTeamLead h st (toTeamMemberId h teamId (getUserId h (authToken ctx)))"
    and team: "get_Team st teamId = Some t"
    and run: "archiveTeam h shortid now st teamId ctx = (r, st', ev)"
  shows "(projectCount st teamId = 0 \<and> length (activeUserIds st teamId) = 1 \<longrightarrow>
            get_Team st' teamId = None \<and>
            filter (\<lambda>m. tm_teamId m = teamId) (tbl_TeamMember st') = [])
       \<and> (\<not> (projectCount st teamId = 0 \<and> length (activeUserIds st teamId) = 1) \<longrightarrow>
            get_Team st' teamId = Some (t\<lparr>team_isArchived := True\<rparr>) \<and>
            map team_id (tbl_Team st') = map team_id (tbl_Team st) \<and>
            tbl_TeamMember st' = tbl_TeamMember st)"
proof -
  from archiveQuery_total[OF team] obtain res st1
    where q: "archiveQuery st teamId = Inr (res, st1)"
    by (elim exE)
  note tabs = archiveTeam_tables[OF auth q run]
  show ?thesis
  proof (cases "projectCount st teamId = 0 \<and> length (activeUserIds st teamId) = 1")
    case True
    then have c: "projectCount st teamId = 0" "length (activeUserIds st teamId) = 1"
      by simp_all
    from archiveQuery_hard(3,4)[OF team c q] tabs True show ?thesis
      by (simp add: get_Team_def find_filter_other)
  next
    case False
    from archiveQuery_soft(3,4)[OF team False q] tabs False team show ?thesis
      by (simp add: get_Team_def find_archived ids_archived)
  qed
qed

theorem archiveTeam_delete_or_archive_witness:
  "requireTeamLead ex_helpers ex_solo ''u1::t1''
   \<and> projectCount ex_solo ''t1'' = 0 \<and> length (activeUserIds ex_solo ''t1'') = 1
   \<and> get_Team (fst (snd (archiveTeam ex_helpers ex_shortid 7 ex_solo ''t1'' (ex_ctx ''u1'')))) ''t1''
       = None
   \<and> filter (\<lambda>m. tm_teamId m = ''t1'')
         (tbl_TeamMember (fst (snd (archiveTeam ex_helpers ex_shortid 7 ex_solo ''t1'' (ex_ctx ''u1'')))))
       = []
   \<and> requireTeamLead ex_helpers ex_trio ''u1::t1''
   \<and> projectCount ex_trio ''t1'' = 0 \<and> length (activeUserIds ex_trio ''t1'') = 3
   \<and> get_Team (fst (snd (archiveTeam ex_helpers ex_shortid 7 ex_trio ''t1'' (ex_ctx ''u1'')))) ''t1''
       = Some (ex_team True)
   \<and> tbl_TeamMember (fst (snd (archiveTeam ex_helpers ex_shortid 7 ex_trio ''t1'' (ex_ctx ''u1''))))
       = tbl_TeamMember ex_trio"
proof -
  have auth1: "requireTeamLead ex_helpers ex_solo
      (toTeamMemberId ex_helpers ''t1'' (getUserId ex_helpers (authToken (ex_ctx ''u1''))))"
    by (simp add: ex_helpers_def ex_shortid_def ex_ctx_def ex_member_def ex_team_def
        ex_store_def ex_solo_def ex_trio_def)
  have auth3: "requireTeamLead ex_helpers ex_trio
      (toTeamMemberId ex_helpers ''t1'' (getUserId ex_helpers (authToken (ex_ctx ''u1''))))"
    by (simp add: ex_helpers_def ex_shortid_def ex_ctx_def ex_member_def ex_team_def
        ex_store_def ex_solo_def ex_trio_def)
  have team1: "get_Team ex_solo ''t1'' = Some (ex_team False)"
    by (simp add: ex_helpers_def ex_shortid_def ex_ctx_def ex_member_def ex_team_def
        ex_store_def ex_solo_def ex_trio_def get_Team_def)
  have team3: "get_Team ex_trio ''t1'' = Some (ex_team False)"
    by (simp add: ex_helpers_def ex_shortid_def ex_ctx_def ex_member_def ex_team_def
        ex_store_def ex_solo_def ex_trio_def get_Team_def)
  have c1: "projectCount ex_solo ''t1'' = 0 \<and> length (activeUserIds ex_solo ''t1'') = 1"
    by (simp add: ex_helpers_def ex_shortid_def ex_ctx_def ex_member_def ex_team_def
        ex_store_def ex_solo_def ex_trio_def projectCount_def activeUserIds_def)
  have c3: "projectCount ex_trio ''t1'' = 0 \<and> length (activeUserIds ex_trio ''t1'') = 3"
    by (simp add: ex_helpers_def ex_shortid_def ex_ctx_def ex_member_def ex_team_def
        ex_store_def ex_solo_def ex_trio_def projectCount_def activeUserIds_def)
  have arch: "(ex_team False)\<lparr>team_isArchived := True\<rparr> = ex_team True"
    by (simp add: ex_team_def)
  let ?solo = "archiveTeam ex_helpers ex_shortid 7 ex_solo ''t1'' (ex_ctx ''u1'')"
  let ?trio = "archiveTeam ex_helpers ex_shortid 7 ex_trio ''t1'' (ex_ctx ''u1'')"
  have run1: "?solo = (fst ?solo, fst (snd ?solo), snd (snd ?solo))"
    by simp
  have run3: "?trio = (fst ?trio, fst (snd ?trio), snd (snd ?trio))"
    by simp
  have solo: "get_Team (fst (snd ?solo)) ''t1'' = None
      \<and> filter (\<lambda>m. tm_teamId m = ''t1'') (tbl_TeamMember (fst (snd ?solo))) = []"
    using archiveTeam_delete_or_archive[OF auth1 team1 run1] c1 by simp
  have trio: "get_Team (fst (snd ?trio)) ''t1'' = Some (ex_team True)
      \<and> tbl_TeamMember (fst (snd ?trio)) = tbl_TeamMember ex_trio"
    using archiveTeam_delete_or_archive[OF auth3 team3 run3] c3 arch by simp
  from auth1 auth3 c1 c3 solo trio show ?thesis
    by (simp add: ex_helpers_def ex_shortid_def ex_ctx_def ex_member_def ex_team_def
        ex_store_def ex_solo_def ex_trio_def)
qed

text \<open>
  C9. Whenever archiveTeam returns a payload, the team in it has \<open>isArchived\<close> set.
  The payload is the team row as it was read, with the flag set, whether the row was deleted
  or archived: nothing in it tells the two apart.
\<close>

theorem archiveTeam_payload_isArchived:
  assumes "archiveTeam h shortid now st teamId ctx = (Inr payload, st', ev)"
  shows "team_isArchived (payload_team payload)
       \<and> (\<exists>t. get_Team st teamId = Some t
              \<and> payload = \<lparr>payload_team = t\<lparr>team_isArchived := True\<rparr>\<rparr>)"
  using assms
  by (auto simp add: archiveTeam_def archiveQuery_def Let_def
      split: if_splits sum.splits option.splits prod.splits)

theorem archiveTeam_payload_isArchived_witness:
  "fst (archiveTeam ex_helpers ex_shortid 7 ex_solo ''t1'' (ex_ctx ''u1''))
     = Inr \<lparr>payload_team = ex_team True\<rparr>
   \<and> get_Team (fst (snd (archiveTeam ex_helpers ex_shortid 7 ex_solo ''t1'' (ex_ctx ''u1'')))) ''t1''
       = None
   \<and> fst (archiveTeam ex_helpers ex_shortid 7 ex_trio ''t1'' (ex_ctx ''u1''))
     = Inr \<lparr>payload_team = ex_team True\<rparr>
   \<and> get_Team (fst (snd (archiveTeam ex_helpers ex_shortid 7 ex_trio ''t1'' (ex_ctx ''u1'')))) ''t1''
       = Some (ex_team True)
   \<and> team_isArchived (ex_team True)"
proof -
  let ?solo = "archiveTeam ex_helpers ex_shortid 7 ex_solo ''t1'' (ex_ctx ''u1'')"
  let ?trio = "archiveTeam ex_helpers ex_shortid 7 ex_trio ''t1'' (ex_ctx ''u1'')"
  have val: "fst ?solo = Inr \<lparr>payload_team = ex_team True\<rparr>"
    by (simp add: ex_helpers_def ex_shortid_def ex_ctx_def ex_member_def ex_team_def
        ex_store_def ex_solo_def ex_trio_def archiveTeam_def archiveQuery_def get_Team_def projectCount_def
        activeUserIds_def Let_def)
  have val3: "fst ?trio = Inr \<lparr>payload_team = ex_team True\<rparr>"
    by (simp add: ex_helpers_def ex_shortid_def ex_ctx_def ex_member_def ex_team_def
        ex_store_def ex_solo_def ex_trio_def archiveTeam_def archiveQuery_def get_Team_def projectCount_def
        activeUserIds_def Let_def)
  have deleted: "get_Team (fst (snd ?solo)) ''t1'' = None"
    by (simp add: ex_helpers_def ex_shortid_def ex_ctx_def ex_member_def ex_team_def
        ex_store_def ex_solo_def ex_trio_def archiveTeam_def archiveQuery_def get_Team_def projectCount_def
        activeUserIds_def Let_def)
  have archived: "get_Team (fst (snd ?trio)) ''t1'' = Some (ex_team True)"
    by (simp add: ex_helpers_def ex_shortid_def ex_ctx_def ex_member_def ex_team_def
        ex_store_def ex_solo_def ex_trio_def archiveTeam_def archiveQuery_def get_Team_def projectCount_def
        activeUserIds_def Let_def)
  have run: "?solo = (Inr \<lparr>payload_team = ex_team True\<rparr>, fst (snd ?solo), snd (snd ?solo))"
    using val by (metis prod.collapse)
  from archiveTeam_payload_isArchived[OF run] have "team_isArchived (ex_team True)"
    by simp
  with val val3 deleted archived show ?thesis
    by simp
qed

lemma insertNotifications_fresh:
  "distinct (map n_id tbl @ map n_id ns) \<Longrightarrow> insertNotifications tbl ns = tbl @ ns"
  by (induction ns arbitrary: tbl) auto

lemma makeNotifications_ids:
  "map n_id (makeNotifications shortid now doc) = map shortid [0..<length (doc_userIds doc)]"
proof -
  have "map n_id (makeNotifications shortid now doc)
      = map shortid (map fst (enumerate 0 (doc_userIds doc)))"
    unfolding makeNotifications_def map_map comp_def split_def by simp
  then show ?thesis
    by (simp only: map_fst_enumerate add_0)
qed

lemma makeNotifications_userIds:
  "map n_userIds (makeNotifications shortid now doc) = map (\<lambda>u. [u]) (doc_userIds doc)"
proof -
  have "map n_userIds (makeNotifications shortid now doc)
      = map (\<lambda>u. [u]) (map snd (enumerate 0 (doc_userIds doc)))"
    unfolding makeNotifications_def map_map comp_def split_def by simp
  then show ?thesis
    by (simp only: map_snd_enumerate)
qed

lemma makeNotifications_type:
  "n \<in> set (makeNotifications shortid now doc) \<Longrightarrow> n_type n = TEAM_ARCHIVED"
  by (auto simp add: makeNotifications_def)

lemma length_makeNotifications:
  "length (makeNotifications shortid now doc) = length (doc_userIds doc)"
  by (simp add: makeNotifications_def)

lemma publishedOn_simps:
  "publishedOn c [] = []"
  "publishedOn c (Publish p # es) =
     (if pub_channel p = c then p # publishedOn c es else publishedOn c es)"
  "publishedOn c (SegmentEvent a b d # es) = publishedOn c es"
  "publishedOn c (Auth0UpdateAppMetadata a ts # es) = publishedOn c es"
  by (simp_all add: publishedOn_def)

lemma publishedOn_append:
  "publishedOn c (xs @ ys) = publishedOn c xs @ publishedOn c ys"
  by (simp add: publishedOn_def)

lemma publishedOn_authTokens:
  "c \<noteq> NEW_AUTH_TOKEN \<Longrightarrow> publishedOn c (publishAuthTokensWithoutTeam uds) = []"
  by (induction uds) (auto simp add: publishedOn_simps publishAuthTokensWithoutTeam_def)

lemma publishedOn_notifications:
  "publishedOn c (publishTeamArchivedNotifications ns so) =
     (if c = NOTIFICATIONS_ADDED
      then map (\<lambda>notification.
        \<lparr>pub_channel = NOTIFICATIONS_ADDED,
         pub_entity = (case n_userIds notification of [] \<Rightarrow> ''undefined'' | userId # _ \<Rightarrow> userId),
         pub_body = NotificationsAdded [notification],
         pub_operationId = spread_operationId so,
         pub_mutatorId = spread_mutatorId so\<rparr>) ns
      else [])"
  by (induction ns) (auto simp add: publishedOn_simps publishTeamArchivedNotifications_def)

lemma archiveTeam_hard_trace:
  assumes "requireTeamLead h st (toTeamMemberId h teamId (getUserId h (authToken ctx)))"
    and "get_Team st teamId = Some t"
    and "projectCount st teamId = 0" "length (activeUserIds st teamId) = 1"
    and "archiveTeam h shortid now st teamId ctx = (r, st', ev)"
  shows "tbl_Notification st' = tbl_Notification st"
    "publishedOn NOTIFICATIONS_ADDED ev = []"
    "publishedOn TEAM ev =
       [\<lparr>pub_channel = TEAM, pub_entity = teamId, pub_body = TeamData teamId UPDATED,
         pub_operationId = Some (share (dataLoader ctx)),
         pub_mutatorId = Some (socketId ctx)\<rparr>]"
  using assms
  by (auto simp add: archiveTeam_def archiveQuery_def Let_def publishedOn_append
      publishedOn_authTokens publishedOn_simps)

lemma archiveTeam_soft_trace:
  assumes "requireTeamLead h st (toTeamMemberId h teamId (getUserId h (authToken ctx)))"
    and "get_Team st teamId = Some t"
    and "\<not> (projectCount st teamId = 0 \<and> length (activeUserIds st teamId) = 1)"
    and "archiveTeam h shortid now st teamId ctx = (r, st', ev)"
    and "doc = \<lparr>doc_projectCount = projectCount st teamId, doc_teamName = team_name t,
                doc_teamOrgId = team_orgId t, doc_userIds = activeUserIds st teamId\<rparr>"
  shows "tbl_Notification st' =
           insertNotifications (tbl_Notification st) (makeNotifications shortid now doc)"
    "publishedOn NOTIFICATIONS_ADDED ev =
       publishedOn NOTIFICATIONS_ADDED
         (publishTeamArchivedNotifications (makeNotifications shortid now doc) None)"
    "\<not> team_isArchived t \<Longrightarrow> publishedOn TEAM ev =
       [\<lparr>pub_channel = TEAM, pub_entity = teamId, pub_body = TeamData teamId UPDATED,
         pub_operationId = Some (share (dataLoader ctx)),
         pub_mutatorId = Some (socketId ctx)\<rparr>]"
  using assms
  by (auto simp add: archiveTeam_def archiveQuery_def Let_def publishedOn_append
      publishedOn_authTokens publishedOn_notifications publishedOn_simps split: if_splits)

lemma makeNotifications_first_user:
  "map (\<lambda>n. case n_userIds n of [] \<Rightarrow> ''undefined'' | userId # _ \<Rightarrow> userId)
     (makeNotifications shortid now doc) = doc_userIds doc"
proof -
  have "map (\<lambda>n. case n_userIds n of [] \<Rightarrow> ''undefined'' | userId # _ \<Rightarrow> userId)
      (makeNotifications shortid now doc) = map snd (enumerate 0 (doc_userIds doc))"
    unfolding makeNotifications_def map_map comp_def split_def by simp
  then show ?thesis
    by (simp only: map_snd_enumerate)
qed

text \<open>
  C2, as the code has it. An archiveTeam call that passes the team-lead check, on a team that
  exists and has N active members, with generated ids that are new to the Notification
  table: unless the team is hard-deleted, exactly N rows are appended to the Notification
  table, all of type \<open>TEAM_ARCHIVED\<close>, the k-th with the k-th active user as its only
  user id; each of them is published once on that user's notification topic, and when the
  team was not archived before, one event is published on the team topic. When the team is
  hard-deleted (N = 1 and no project), no Notification row is inserted, nothing is published
  on a notification topic, and one event is published on the team topic.
\<close>

theorem archiveTeam_notifications:
  assumes auth: "requireTeamLead h st (toTeamMemberId h teamId (getUserId h (authToken ctx)))"
    and team: "get_Team st teamId = Some t"
    and run: "archiveTeam h shortid now st teamId ctx = (r, st', ev)"
    and fresh: "distinct (map n_id (tbl_Notification st) @
                  map shortid [0..<length (activeUserIds st teamId)])"
  shows "(\<not> (projectCount st teamId = 0 \<and> length (activeUserIds st teamId) = 1) \<longrightarrow>
            (\<exists>new. tbl_Notification st' = tbl_Notification st @ new
               \<and> length new = length (activeUserIds st teamId)
               \<and> list_all (\<lambda>n. n_type n = TEAM_ARCHIVED) new
               \<and> map n_userIds new = map (\<lambda>u. [u]) (activeUserIds st teamId)
               \<and> map pub_body (publishedOn NOTIFICATIONS_ADDED ev)
                   = map (\<lambda>n. NotificationsAdded [n]) new)
            \<and> map pub_entity (publishedOn NOTIFICATIONS_ADDED ev) = activeUserIds st teamId
            \<and> (\<not> team_isArchived t \<longrightarrow> length (publishedOn TEAM ev) = 1))
       \<and> (projectCount st teamId = 0 \<and> length (activeUserIds st teamId) = 1 \<longrightarrow>
            tbl_Notification st' = tbl_Notification st
            \<and> publishedOn NOTIFICATIONS_ADDED ev = []
            \<and> length (publishedOn TEAM ev) = 1)"
proof (cases "projectCount st teamId = 0 \<and> length (activeUserIds st teamId) = 1")
  case True
  then have c: "projectCount st teamId = 0" "length (activeUserIds st teamId) = 1"
    by simp_all
  from archiveTeam_hard_trace[OF auth team c run] True show ?thesis
    by simp
next
  case False
  define doc where "doc = \<lparr>doc_projectCount = projectCount st teamId, doc_teamName = team_name t,
    doc_teamOrgId = team_orgId t, doc_userIds = activeUserIds st teamId\<rparr>"
  define new where "new = makeNotifications shortid now doc"
  have users: "doc_userIds doc = activeUserIds st teamId"
    by (simp add: doc_def)
  note trace = archiveTeam_soft_trace[OF auth team False run doc_def]
  have "distinct (map n_id (tbl_Notification st) @ map n_id new)"
    using fresh by (simp only: new_def makeNotifications_ids users)
  then have tbl: "tbl_Notification st' = tbl_Notification st @ new"
    using trace(1) by (simp only: new_def insertNotifications_fresh)
  have len: "length new = length (activeUserIds st teamId)"
    by (simp add: new_def length_makeNotifications users)
  have types: "list_all (\<lambda>n. n_type n = TEAM_ARCHIVED) new"
    by (simp add: new_def list_all_iff makeNotifications_type)
  have uids: "map n_userIds new = map (\<lambda>u. [u]) (activeUserIds st teamId)"
    by (simp only: new_def makeNotifications_userIds users)
  have pubs: "publishedOn NOTIFICATIONS_ADDED ev =
      map (\<lambda>notification.
        \<lparr>pub_channel = NOTIFICATIONS_ADDED,
         pub_entity = (case n_userIds notification of [] \<Rightarrow> ''undefined'' | userId # _ \<Rightarrow> userId),
         pub_body = NotificationsAdded [notification],
         pub_operationId = spread_operationId None,
         pub_mutatorId = spread_mutatorId None\<rparr>) new"
    using trace(2) by (simp add: publishedOn_notifications new_def)
  have bodies: "map pub_body (publishedOn NOTIFICATIONS_ADDED ev)
      = map (\<lambda>n. NotificationsAdded [n]) new"
    by (simp add: pubs comp_def)
  have "map pub_entity (publishedOn NOTIFICATIONS_ADDED ev)
      = map (\<lambda>n. case n_userIds n of [] \<Rightarrow> ''undefined'' | userId # _ \<Rightarrow> userId) new"
    by (simp add: pubs comp_def)
  then have entities: "map pub_entity (publishedOn NOTIFICATIONS_ADDED ev) = activeUserIds st teamId"
    by (simp only: new_def makeNotifications_first_user users)
  have teampub: "\<not> team_isArchived t \<longrightarrow> length (publishedOn TEAM ev) = 1"
    using trace(3) by simp
  from tbl len types uids bodies have "\<exists>new. tbl_Notification st' = tbl_Notification st @ new
               \<and> length new = length (activeUserIds st teamId)
               \<and> list_all (\<lambda>n. n_type n = TEAM_ARCHIVED) new
               \<and> map n_userIds new = map (\<lambda>u. [u]) (activeUserIds st teamId)
               \<and> map pub_body (publishedOn NOTIFICATIONS_ADDED ev)
                   = map (\<lambda>n. NotificationsAdded [n]) new"
    by (intro exI[of _ new]) simp
  with entities teampub False show ?thesis
    by blast
qed

theorem archiveTeam_notifications_witness:
  "requireTeamLead ex_helpers ex_trio ''u1::t1''
   \<and> get_Team ex_trio ''t1'' = Some (ex_team False)
   \<and> projectCount ex_trio ''t1'' = 0
   \<and> activeUserIds ex_trio ''t1'' = [''u1'', ''u2'', ''u3'']
   \<and> distinct (map n_id (tbl_Notification ex_trio) @ map ex_shortid [0..<3])
   \<and> length (tbl_Notification (fst (snd (archiveTeam ex_helpers ex_shortid 7 ex_trio ''t1'' (ex_ctx ''u1'')))))
       = 3
   \<and> map pub_entity (publishedOn NOTIFICATIONS_ADDED
         (snd (snd (archiveTeam ex_helpers ex_shortid 7 ex_trio ''t1'' (ex_ctx ''u1'')))))
       = [''u1'', ''u2'', ''u3'']
   \<and> length (publishedOn TEAM
         (snd (snd (archiveTeam ex_helpers ex_shortid 7 ex_trio ''t1'' (ex_ctx ''u1''))))) = 1"
proof -
  let ?trio = "archiveTeam ex_helpers ex_shortid 7 ex_trio ''t1'' (ex_ctx ''u1'')"
  have auth: "requireTeamLead ex_helpers ex_trio
      (toTeamMemberId ex_helpers ''t1'' (getUserId ex_helpers (authToken (ex_ctx ''u1''))))"
    by (simp add: ex_helpers_def ex_shortid_def ex_ctx_def ex_member_def ex_team_def
        ex_store_def ex_trio_def)
  have team: "get_Team ex_trio ''t1'' = Some (ex_team False)"
    by (simp add: ex_helpers_def ex_shortid_def ex_ctx_def ex_member_def ex_team_def
        ex_store_def ex_trio_def get_Team_def)
  have run: "?trio = (fst ?trio, fst (snd ?trio), snd (snd ?trio))"
    by simp
  have pc: "projectCount ex_trio ''t1'' = 0"
    by (simp add: ex_helpers_def ex_shortid_def ex_ctx_def ex_member_def ex_team_def
        ex_store_def ex_trio_def projectCount_def)
  have users: "activeUserIds ex_trio ''t1'' = [''u1'', ''u2'', ''u3'']"
    by (simp add: ex_helpers_def ex_shortid_def ex_ctx_def ex_member_def ex_team_def
        ex_store_def ex_trio_def activeUserIds_def)
  have upt3: "[0..<3] = [0, 1, 2]"
    by (simp add: upt_rec)
  have empty: "tbl_Notification ex_trio = []"
    by (simp add: ex_helpers_def ex_shortid_def ex_ctx_def ex_member_def ex_team_def
        ex_store_def ex_trio_def)
  have fresh3: "distinct (map n_id (tbl_Notification ex_trio) @ map ex_shortid [0..<3])"
    by (simp add: empty upt3 ex_shortid_def eval_nat_numeral)
  have len3: "length (activeUserIds ex_trio ''t1'') = 3"
    by (simp add: users)
  have fresh: "distinct (map n_id (tbl_Notification ex_trio) @
      map ex_shortid [0..<length (activeUserIds ex_trio ''t1'')])"
    by (simp only: len3 fresh3)
  have notarch: "\<not> team_isArchived (ex_team False)"
    by (simp add: ex_team_def)
  from archiveTeam_notifications[OF auth team run fresh] users pc notarch empty
  have "length (tbl_Notification (fst (snd ?trio))) = 3
      \<and> map pub_entity (publishedOn NOTIFICATIONS_ADDED (snd (snd ?trio))) = [''u1'', ''u2'', ''u3'']
      \<and> length (publishedOn TEAM (snd (snd ?trio))) = 1"
    by auto
  with auth team pc users fresh3 show ?thesis
    by (simp add: ex_helpers_def ex_shortid_def ex_ctx_def ex_member_def ex_team_def
        ex_store_def ex_trio_def)
qed

text \<open>
  C2 fails as stated in the case it names: a team with one active member and no project is
  hard-deleted, and its archival inserts no notification and publishes none.
\<close>

theorem archiveTeam_notifications_counterexample:
  "length (activeUserIds ex_solo ''t1'') = 1
   \<and> projectCount ex_solo ''t1'' = 0
   \<and> fst (archiveTeam ex_helpers ex_shortid 7 ex_solo ''t1'' (ex_ctx ''u1''))
       = Inr \<lparr>payload_team = ex_team True\<rparr>
   \<and> tbl_Notification ex_solo = []
   \<and> tbl_Notification (fst (snd (archiveTeam ex_helpers ex_shortid 7 ex_solo ''t1'' (ex_ctx ''u1''))))
       = []
   \<and> publishedOn NOTIFICATIONS_ADDED
         (snd (snd (archiveTeam ex_helpers ex_shortid 7 ex_solo ''t1'' (ex_ctx ''u1'')))) = []"
  by (simp add: ex_helpers_def ex_shortid_def ex_ctx_def ex_member_def ex_team_def
        ex_store_def ex_solo_def archiveTeam_def archiveQuery_def get_Team_def projectCount_def
      activeUserIds_def Let_def publishedOn_simps publishAuthTokensWithoutTeam_def)

section \<open>Failures of the resolvers\<close>

text \<open>
  C5. When the authorization check of a resolver denies the caller, the resolver ends with
  the store it was given and an empty trace: nothing was written, nothing was published, no
  other effect was started. archiveTeam and the invitation resolver end by raising the
  failure, AddGitHubRepo by returning the error payload.
\<close>

theorem denied_no_writes_no_publishes:
  "(\<not> requireTeamLead h st (toTeamMemberId h teamId (getUserId h (authToken ctx))) \<longrightarrow>
      archiveTeam h shortid now st teamId ctx = (Inl AuthorizationError, st, []))
   \<and> (\<not> isTeamMember h (authToken ctx) teamId \<longrightarrow>
      AddGitHubRepo h api tokenCanAccessRepo maybeJoinRepos shortid now st teamId nameWithOwner ctx
        = (Inr (standardError ''Team not found'' (getUserId h (authToken ctx))), st, [], []))
   \<and> (\<not> requireOrgLeaderOrTeamMember h st (authToken ctx) teamId \<longrightarrow>
      inviteTeamMembers_resolve h safeMutation st invitees teamId ctx
        = (Inl AuthorizationError, st, []))"
  by (simp add: archiveTeam_def AddGitHubRepo_def inviteTeamMembers_resolve_def Let_def)

theorem denied_no_writes_no_publishes_witness:
  "\<not> requireTeamLead ex_helpers ex_trio ''u9::t1''
   \<and> \<not> isTeamMember ex_helpers (authToken ex_outsider) ''t1''
   \<and> \<not> requireOrgLeaderOrTeamMember ex_helpers ex_trio (authToken ex_outsider) ''t1''
   \<and> archiveTeam ex_helpers ex_shortid 7 ex_trio ''t1'' ex_outsider
       = (Inl AuthorizationError, ex_trio, [])
   \<and> AddGitHubRepo ex_helpers ex_api_up ex_tokenCanAccessRepo ex_maybeJoinRepos ex_shortid 7
         ex_trio ''t1'' ''acme/site'' ex_outsider
       = (Inr (ErrorPayload ''Team not found''), ex_trio, [], [])
   \<and> inviteTeamMembers_resolve ex_helpers (inviteTeamMembers ex_shortid) ex_trio
         [\<lparr>inv_email = ''u2@example.com''\<rparr>] ''t1'' ex_outsider
       = (Inl AuthorizationError, ex_trio, [])"
proof -
  have lead: "\<not> requireTeamLead ex_helpers ex_trio
      (toTeamMemberId ex_helpers ''t1'' (getUserId ex_helpers (authToken ex_outsider)))"
    by (simp add: ex_helpers_def ex_shortid_def ex_outsider_def ex_member_def ex_team_def
        ex_store_def ex_trio_def ex_api_up_def ex_tokenCanAccessRepo_def
        ex_maybeJoinRepos_def)
  have lead': "\<not> requireTeamLead ex_helpers ex_trio ''u9::t1''"
    by (simp add: ex_helpers_def ex_shortid_def ex_outsider_def ex_member_def ex_team_def
        ex_store_def ex_trio_def ex_api_up_def ex_tokenCanAccessRepo_def
        ex_maybeJoinRepos_def)
  have member: "\<not> isTeamMember ex_helpers (authToken ex_outsider) ''t1''"
    by (simp add: ex_helpers_def ex_shortid_def ex_outsider_def ex_member_def ex_team_def
        ex_store_def ex_trio_def ex_api_up_def ex_tokenCanAccessRepo_def
        ex_maybeJoinRepos_def)
  have org: "\<not> requireOrgLeaderOrTeamMember ex_helpers ex_trio (authToken ex_outsider) ''t1''"
    by (simp add: ex_helpers_def ex_shortid_def ex_outsider_def ex_member_def ex_team_def
        ex_store_def ex_trio_def ex_api_up_def ex_tokenCanAccessRepo_def
        ex_maybeJoinRepos_def)
  have err: "standardError ''Team not found'' (getUserId ex_helpers (authToken ex_outsider))
      = ErrorPayload ''Team not found''"
    by (simp add: standardError_def)
  from denied_no_writes_no_publishes[of ex_helpers ex_trio "''t1''" ex_outsider ex_shortid 7
      ex_api_up ex_tokenCanAccessRepo ex_maybeJoinRepos "''acme/site''"
      "inviteTeamMembers ex_shortid" "[\<lparr>inv_email = ''u2@example.com''\<rparr>]"]
    lead lead' member org err
  show ?thesis
    by simp
qed

text \<open>
  C3 fails on archiveTeam: the lead of a team of two that is already archived gets the
  failure thrown, not returned.
\<close>

theorem failures_returned_counterexample:
  "requireTeamLead ex_helpers ex_archived ''u1::t1''
   \<and> get_Team ex_archived ''t1'' = Some (ex_team True)
   \<and> team_isArchived (ex_team True)
   \<and> fst (archiveTeam ex_helpers ex_shortid 7 ex_archived ''t1'' (ex_ctx ''u1''))
       = Inl TeamAlreadyArchived"
  by (simp add: ex_helpers_def ex_shortid_def ex_ctx_def ex_member_def ex_team_def
        ex_store_def ex_archived_def archiveTeam_def archiveQuery_def get_Team_def projectCount_def
      activeUserIds_def Let_def)

text \<open>
  C3, as the code has it. AddGitHubRepo returns its authorization failure and each of its
  business-rule failures (no active GitHub provider of the viewer, an error reported by
  GitHub, the viewer not being an administrator of the repository) as the payload built by
  \<open>standardError\<close>, and what it throws is a malformed response or a failed store query.
  archiveTeam and the invitation resolver raise their authorization failure, and archiveTeam
  raises the failure of an already archived team that is not hard-deleted.
\<close>

theorem failures_returned_or_thrown:
  fixes h :: helpers and st :: store and ctx :: req_context
  defines "viewerId \<equiv> getUserId h (authToken ctx)"
  shows "(\<not> isTeamMember h (authToken ctx) teamId \<longrightarrow>
            fst (AddGitHubRepo h api tokenCanAccessRepo maybeJoinRepos shortid now st teamId
                   nameWithOwner ctx)
              = Inr (standardError ''Team not found'' viewerId))
       \<and> (isTeamMember h (authToken ctx) teamId
          \<and> findIndex (\<lambda>p. prov_userId p = viewerId) (allTeamProviders st teamId) = None \<longrightarrow>
            fst (AddGitHubRepo h api tokenCanAccessRepo maybeJoinRepos shortid now st teamId
                   nameWithOwner ctx)
              = Inr (standardError ''GitHub Provider not found'' viewerId))
       \<and> (isTeamMember h (authToken ctx) teamId
          \<and> findIndex (\<lambda>p. prov_userId p = viewerId) (allTeamProviders st teamId) = Some i
          \<and> vp_errors (tokenCanAccessRepo (prov_accessToken (allTeamProviders st teamId ! i))
                         nameWithOwner) \<longrightarrow>
            fst (AddGitHubRepo h api tokenCanAccessRepo maybeJoinRepos shortid now st teamId
                   nameWithOwner ctx)
              = Inr (standardError ''Unknown GitHub error'' viewerId))
       \<and> (isTeamMember h (authToken ctx) teamId
          \<and> findIndex (\<lambda>p. prov_userId p = viewerId) (allTeamProviders st teamId) = Some i
          \<and> \<not> vp_errors (tokenCanAccessRepo (prov_accessToken (allTeamProviders st teamId ! i))
                           nameWithOwner)
          \<and> vp_data (tokenCanAccessRepo (prov_accessToken (allTeamProviders st teamId ! i))
                       nameWithOwner) = Some repository
          \<and> \<not> viewerCanAdminister repository \<longrightarrow>
            fst (AddGitHubRepo h api tokenCanAccessRepo maybeJoinRepos shortid now st teamId
                   nameWithOwner ctx)
              = Inr (standardError ''Not GitHub Administrator'' viewerId))
       \<and> (fst (AddGitHubRepo h api tokenCanAccessRepo maybeJoinRepos shortid now st teamId
                  nameWithOwner ctx) = Inl e \<longrightarrow> e = TypeError \<or> e = ReqlError)
       \<and> (\<not> requireTeamLead h st (toTeamMemberId h teamId viewerId) \<longrightarrow>
            fst (archiveTeam h shortid now st teamId ctx) = Inl AuthorizationError)
       \<and> (requireTeamLead h st (toTeamMemberId h teamId viewerId)
          \<and> get_Team st teamId = Some t \<and> team_isArchived t
          \<and> \<not> (projectCount st teamId = 0 \<and> length (activeUserIds st teamId) = 1) \<longrightarrow>
            fst (archiveTeam h shortid now st teamId ctx) = Inl TeamAlreadyArchived)
       \<and> (\<not> requireOrgLeaderOrTeamMember h st (authToken ctx) teamId \<longrightarrow>
            fst (inviteTeamMembers_resolve h safeMutation st invitees teamId ctx)
              = Inl AuthorizationError)"
proof -
  let ?add = "AddGitHubRepo h api tokenCanAccessRepo maybeJoinRepos shortid now st teamId
    nameWithOwner ctx"
  have thrown: "fst ?add = Inl e \<longrightarrow> e = TypeError \<or> e = ReqlError"
    by (auto simp add: AddGitHubRepo_def createOrRehydrate_def Let_def
        split: if_splits option.splits sum.splits prod.splits)
  have archived: "requireTeamLead h st (toTeamMemberId h teamId viewerId)
      \<and> get_Team st teamId = Some t \<and> team_isArchived t
      \<and> \<not> (projectCount st teamId = 0 \<and> length (activeUserIds st teamId) = 1) \<longrightarrow>
        fst (archiveTeam h shortid now st teamId ctx) = Inl TeamAlreadyArchived"
    by (auto simp add: viewerId_def archiveTeam_def archiveQuery_def Let_def)
  have returned: "(\<not> isTeamMember h (authToken ctx) teamId \<longrightarrow>
        fst ?add = Inr (standardError ''Team not found'' viewerId))
      \<and> (isTeamMember h (authToken ctx) teamId
          \<and> findIndex (\<lambda>p. prov_userId p = viewerId) (allTeamProviders st teamId) = None \<longrightarrow>
        fst ?add = Inr (standardError ''GitHub Provider not found'' viewerId))
      \<and> (isTeamMember h (authToken ctx) teamId
          \<and> findIndex (\<lambda>p. prov_userId p = viewerId) (allTeamProviders st teamId) = Some i
          \<and> vp_errors (tokenCanAccessRepo (prov_accessToken (allTeamProviders st teamId ! i))
                         nameWithOwner) \<longrightarrow>
        fst ?add = Inr (standardError ''Unknown GitHub error'' viewerId))
      \<and> (isTeamMember h (authToken ctx) teamId
          \<and> findIndex (\<lambda>p. prov_userId p = viewerId) (allTeamProviders st teamId) = Some i
          \<and> \<not> vp_errors (tokenCanAccessRepo (prov_accessToken (allTeamProviders st teamId ! i))
                           nameWithOwner)
          \<and> vp_data (tokenCanAccessRepo (prov_accessToken (allTeamProviders st teamId ! i))
                       nameWithOwner) = Some repository
          \<and> \<not> viewerCanAdminister repository \<longrightarrow>
        fst ?add = Inr (standardError ''Not GitHub Administrator'' viewerId))"
    by (simp add: viewerId_def AddGitHubRepo_def Let_def)
  have denied: "(\<not> requireTeamLead h st (toTeamMemberId h teamId viewerId) \<longrightarrow>
        fst (archiveTeam h shortid now st teamId ctx) = Inl AuthorizationError)
      \<and> (\<not> requireOrgLeaderOrTeamMember h st (authToken ctx) teamId \<longrightarrow>
        fst (inviteTeamMembers_resolve h safeMutation st invitees teamId ctx)
          = Inl AuthorizationError)"
    by (simp add: viewerId_def archiveTeam_def inviteTeamMembers_resolve_def Let_def)
  from thrown archived returned denied show ?thesis
    by blast
qed

theorem failures_returned_or_thrown_witness:
  "\<not> isTeamMember ex_helpers (authToken ex_outsider) ''t1''
   \<and> fst (AddGitHubRepo ex_helpers ex_api_up ex_tokenCanAccessRepo ex_maybeJoinRepos ex_shortid 7
            ex_archived ''t1'' ''acme/site'' ex_outsider)
       = Inr (ErrorPayload ''Team not found'')
   \<and> \<not> requireOrgLeaderOrTeamMember ex_helpers ex_archived (authToken ex_outsider) ''t1''
   \<and> fst (inviteTeamMembers_resolve ex_helpers (inviteTeamMembers ex_shortid) ex_archived []
            ''t1'' ex_outsider)
       = Inl AuthorizationError
   \<and> isTeamMember ex_helpers (authToken (ex_ctx ''u2'')) ''t1''
   \<and> findIndex (\<lambda>p. prov_userId p = ''u2'') (allTeamProviders ex_archived ''t1'') = None
   \<and> fst (AddGitHubRepo ex_helpers ex_api_up ex_tokenCanAccessRepo ex_maybeJoinRepos ex_shortid 7
            ex_archived ''t1'' ''acme/site'' (ex_ctx ''u2''))
       = Inr (ErrorPayload ''GitHub Provider not found'')
   \<and> \<not> requireTeamLead ex_helpers ex_archived ''u2::t1''
   \<and> fst (archiveTeam ex_helpers ex_shortid 7 ex_archived ''t1'' (ex_ctx ''u2''))
       = Inl AuthorizationError
   \<and> requireTeamLead ex_helpers ex_archived ''u1::t1''
   \<and> get_Team ex_archived ''t1'' = Some (ex_team True)
   \<and> length (activeUserIds ex_archived ''t1'') = 2
   \<and> fst (archiveTeam ex_helpers ex_shortid 7 ex_archived ''t1'' (ex_ctx ''u1''))
       = Inl TeamAlreadyArchived
   \<and> findIndex (\<lambda>p. prov_userId p = ''u1'') (allTeamProviders ex_archived ''t1'') = Some 0
   \<and> fst (AddGitHubRepo ex_helpers ex_api_up
            (\<lambda>accessToken nameWithOwner.
               \<lparr>vp_data = Some \<lparr>viewerCanAdminister = False, databaseId = 42\<rparr>, vp_errors = False\<rparr>)
            ex_maybeJoinRepos ex_shortid 7 ex_archived ''t1'' ''acme/site'' (ex_ctx ''u1''))
       = Inr (ErrorPayload ''Not GitHub Administrator'')
   \<and> fst (AddGitHubRepo ex_helpers ex_api_up
            (\<lambda>accessToken nameWithOwner. \<lparr>vp_data = None, vp_errors = True\<rparr>)
            ex_maybeJoinRepos ex_shortid 7 ex_archived ''t1'' ''acme/site'' (ex_ctx ''u1''))
       = Inr (ErrorPayload ''Unknown GitHub error'')
   \<and> fst (AddGitHubRepo ex_helpers ex_api_up
            (\<lambda>accessToken nameWithOwner. \<lparr>vp_data = None, vp_errors = False\<rparr>)
            ex_maybeJoinRepos ex_shortid 7 ex_archived ''t1'' ''acme/site'' (ex_ctx ''u1''))
       = Inl TypeError"
proof -
  let ?deny = "\<lambda>accessToken nameWithOwner :: string.
    \<lparr>vp_data = Some \<lparr>viewerCanAdminister = False, databaseId = 42\<rparr>, vp_errors = False\<rparr>"
  let ?errors = "\<lambda>accessToken nameWithOwner :: string.
    \<lparr>vp_data = None :: Repository option, vp_errors = True\<rparr>"
  let ?nodata = "\<lambda>accessToken nameWithOwner :: string.
    \<lparr>vp_data = None :: Repository option, vp_errors = False\<rparr>"
  have member9: "\<not> isTeamMember ex_helpers (authToken ex_outsider) ''t1''"
    by (simp add: ex_helpers_def ex_shortid_def ex_ctx_def ex_outsider_def ex_member_def
        ex_team_def ex_store_def ex_archived_def ex_api_up_def
        ex_tokenCanAccessRepo_def ex_maybeJoinRepos_def)
  have org9: "\<not> requireOrgLeaderOrTeamMember ex_helpers ex_archived (authToken ex_outsider) ''t1''"
    by (simp add: ex_helpers_def ex_shortid_def ex_ctx_def ex_outsider_def ex_member_def
        ex_team_def ex_store_def ex_archived_def ex_api_up_def
        ex_tokenCanAccessRepo_def ex_maybeJoinRepos_def)
  have member2: "isTeamMember ex_helpers (authToken (ex_ctx ''u2'')) ''t1''"
    by (simp add: ex_helpers_def ex_shortid_def ex_ctx_def ex_outsider_def ex_member_def
        ex_team_def ex_store_def ex_archived_def ex_api_up_def
        ex_tokenCanAccessRepo_def ex_maybeJoinRepos_def)
  have member1: "isTeamMember ex_helpers (authToken (ex_ctx ''u1'')) ''t1''"
    by (simp add: ex_helpers_def ex_shortid_def ex_ctx_def ex_outsider_def ex_member_def
        ex_team_def ex_store_def ex_archived_def ex_api_up_def
        ex_tokenCanAccessRepo_def ex_maybeJoinRepos_def)
  have id2: "getUserId ex_helpers (authToken (ex_ctx ''u2'')) = ''u2''"
    by (simp add: ex_helpers_def ex_shortid_def ex_ctx_def ex_outsider_def ex_member_def
        ex_team_def ex_store_def ex_archived_def ex_api_up_def
        ex_tokenCanAccessRepo_def ex_maybeJoinRepos_def)
  have id1: "getUserId ex_helpers (authToken (ex_ctx ''u1'')) = ''u1''"
    by (simp add: ex_helpers_def ex_shortid_def ex_ctx_def ex_outsider_def ex_member_def
        ex_team_def ex_store_def ex_archived_def ex_api_up_def
        ex_tokenCanAccessRepo_def ex_maybeJoinRepos_def)
  have tm2: "toTeamMemberId ex_helpers ''t1'' ''u2'' = ''u2::t1''"
    by (simp add: ex_helpers_def ex_shortid_def ex_ctx_def ex_outsider_def ex_member_def
        ex_team_def ex_store_def ex_archived_def ex_api_up_def
        ex_tokenCanAccessRepo_def ex_maybeJoinRepos_def)
  have tm1: "toTeamMemberId ex_helpers ''t1'' ''u1'' = ''u1::t1''"
    by (simp add: ex_helpers_def ex_shortid_def ex_ctx_def ex_outsider_def ex_member_def
        ex_team_def ex_store_def ex_archived_def ex_api_up_def
        ex_tokenCanAccessRepo_def ex_maybeJoinRepos_def)
  have none2: "findIndex (\<lambda>p. prov_userId p = ''u2'') (allTeamProviders ex_archived ''t1'') = None"
    by (simp add: ex_helpers_def ex_shortid_def ex_ctx_def ex_outsider_def ex_member_def
        ex_team_def ex_store_def ex_archived_def ex_api_up_def
        ex_tokenCanAccessRepo_def ex_maybeJoinRepos_def allTeamProviders_def)
  have some1: "findIndex (\<lambda>p. prov_userId p = ''u1'') (allTeamProviders ex_archived ''t1'') = Some 0"
    by (simp add: ex_helpers_def ex_shortid_def ex_ctx_def ex_outsider_def ex_member_def
        ex_team_def ex_store_def ex_archived_def ex_api_up_def
        ex_tokenCanAccessRepo_def ex_maybeJoinRepos_def allTeamProviders_def)
  have nolead2: "\<not> requireTeamLead ex_helpers ex_archived ''u2::t1''"
    by (simp add: ex_helpers_def ex_shortid_def ex_ctx_def ex_outsider_def ex_member_def
        ex_team_def ex_store_def ex_archived_def ex_api_up_def
        ex_tokenCanAccessRepo_def ex_maybeJoinRepos_def)
  have lead1: "requireTeamLead ex_helpers ex_archived ''u1::t1''"
    by (simp add: ex_helpers_def ex_shortid_def ex_ctx_def ex_outsider_def ex_member_def
        ex_team_def ex_store_def ex_archived_def ex_api_up_def
        ex_tokenCanAccessRepo_def ex_maybeJoinRepos_def)
  have team: "get_Team ex_archived ''t1'' = Some (ex_team True)"
    by (simp add: ex_helpers_def ex_shortid_def ex_ctx_def ex_outsider_def ex_member_def
        ex_team_def ex_store_def ex_archived_def ex_api_up_def
        ex_tokenCanAccessRepo_def ex_maybeJoinRepos_def get_Team_def)
  have arch: "team_isArchived (ex_team True)"
    by (simp add: ex_team_def)
  have two: "length (activeUserIds ex_archived ''t1'') = 2"
    by (simp add: ex_helpers_def ex_shortid_def ex_ctx_def ex_outsider_def ex_member_def
        ex_team_def ex_store_def ex_archived_def ex_api_up_def
        ex_tokenCanAccessRepo_def ex_maybeJoinRepos_def activeUserIds_def)
  note u9 = failures_returned_or_thrown[where h = ex_helpers and st = ex_archived
      and ctx = ex_outsider and teamId = "''t1''" and api = ex_api_up
      and tokenCanAccessRepo = ex_tokenCanAccessRepo and maybeJoinRepos = ex_maybeJoinRepos
      and shortid = ex_shortid and now = 7 and nameWithOwner = "''acme/site''"
      and t = "ex_team True" and i = 0 and e = TypeError
      and repository = "\<lparr>viewerCanAdminister = False, databaseId = 42\<rparr>"
      and safeMutation = "inviteTeamMembers ex_shortid" and invitees = "[]"]
  note u2 = failures_returned_or_thrown[where h = ex_helpers and st = ex_archived
      and ctx = "ex_ctx ''u2''" and teamId = "''t1''" and api = ex_api_up
      and tokenCanAccessRepo = ex_tokenCanAccessRepo and maybeJoinRepos = ex_maybeJoinRepos
      and shortid = ex_shortid and now = 7 and nameWithOwner = "''acme/site''"
      and t = "ex_team True" and i = 0 and e = TypeError
      and repository = "\<lparr>viewerCanAdminister = False, databaseId = 42\<rparr>"
      and safeMutation = "inviteTeamMembers ex_shortid" and invitees = "[]",
      unfolded id2 tm2]
  note u1 = failures_returned_or_thrown[where h = ex_helpers and st = ex_archived
      and ctx = "ex_ctx ''u1''" and teamId = "''t1''" and api = ex_api_up
      and tokenCanAccessRepo = ?deny and maybeJoinRepos = ex_maybeJoinRepos
      and shortid = ex_shortid and now = 7 and nameWithOwner = "''acme/site''"
      and t = "ex_team True" and i = 0 and e = TypeError
      and repository = "\<lparr>viewerCanAdminister = False, databaseId = 42\<rparr>"
      and safeMutation = "inviteTeamMembers ex_shortid" and invitees = "[]",
      unfolded id1 tm1]
  note u1e = failures_returned_or_thrown[where h = ex_helpers and st = ex_archived
      and ctx = "ex_ctx ''u1''" and teamId = "''t1''" and api = ex_api_up
      and tokenCanAccessRepo = ?errors and maybeJoinRepos = ex_maybeJoinRepos
      and shortid = ex_shortid and now = 7 and nameWithOwner = "''acme/site''"
      and t = "ex_team True" and i = 0 and e = TypeError
      and repository = "\<lparr>viewerCanAdminister = False, databaseId = 42\<rparr>"
      and safeMutation = "inviteTeamMembers ex_shortid" and invitees = "[]",
      unfolded id1 tm1]
  have a: "fst (AddGitHubRepo ex_helpers ex_api_up ex_tokenCanAccessRepo ex_maybeJoinRepos
        ex_shortid 7 ex_archived ''t1'' ''acme/site'' ex_outsider)
      = Inr (ErrorPayload ''Team not found'')"
    using u9 member9 by (simp add: standardError_def)
  have h: "fst (inviteTeamMembers_resolve ex_helpers (inviteTeamMembers ex_shortid) ex_archived []
        ''t1'' ex_outsider) = Inl AuthorizationError"
    using u9 org9 by simp
  have b: "fst (AddGitHubRepo ex_helpers ex_api_up ex_tokenCanAccessRepo ex_maybeJoinRepos
        ex_shortid 7 ex_archived ''t1'' ''acme/site'' (ex_ctx ''u2''))
      = Inr (ErrorPayload ''GitHub Provider not found'')"
    using u2 member2 none2 by (simp add: standardError_def)
  have f: "fst (archiveTeam ex_helpers ex_shortid 7 ex_archived ''t1'' (ex_ctx ''u2''))
      = Inl AuthorizationError"
    using u2 nolead2 by simp
  have g: "fst (archiveTeam ex_helpers ex_shortid 7 ex_archived ''t1'' (ex_ctx ''u1''))
      = Inl TeamAlreadyArchived"
    using u1 lead1 team arch two by simp
  have d: "fst (AddGitHubRepo ex_helpers ex_api_up ?deny ex_maybeJoinRepos ex_shortid 7
        ex_archived ''t1'' ''acme/site'' (ex_ctx ''u1''))
      = Inr (ErrorPayload ''Not GitHub Administrator'')"
    using u1 member1 some1 by (simp add: standardError_def)
  have c: "fst (AddGitHubRepo ex_helpers ex_api_up ?errors ex_maybeJoinRepos ex_shortid 7
        ex_archived ''t1'' ''acme/site'' (ex_ctx ''u1''))
      = Inr (ErrorPayload ''Unknown GitHub error'')"
    using u1e member1 some1 by (simp add: standardError_def)
  have e: "fst (AddGitHubRepo ex_helpers ex_api_up ?nodata ex_maybeJoinRepos ex_shortid 7
        ex_archived ''t1'' ''acme/site'' (ex_ctx ''u1'')) = Inl TypeError"
    by (simp add: AddGitHubRepo_def allTeamProviders_def Let_def ex_helpers_def ex_shortid_def ex_ctx_def ex_outsider_def ex_member_def
        ex_team_def ex_store_def ex_archived_def ex_api_up_def
        ex_tokenCanAccessRepo_def ex_maybeJoinRepos_def)
  from member9 a org9 h member2 none2 b nolead2 f lead1 team two g some1 d c e show ?thesis
    by simp
qed

text \<open>
  C4 evaluated on a team of three: archiveTeam calls
  \<open>publishTeamArchivedNotifications(notifications)\<close> without its second argument, so the
  three events on the notification topics carry neither an operation id nor a mutator id,
  while the event on the team topic carries both.
\<close>

theorem archiveTeam_notification_events_without_ids:
  "map pub_entity (publishedOn NOTIFICATIONS_ADDED
       (snd (snd (archiveTeam ex_helpers ex_shortid 7 ex_trio ''t1'' (ex_ctx ''u1'')))))
     = [''u1'', ''u2'', ''u3'']
   \<and> map pub_operationId (publishedOn NOTIFICATIONS_ADDED
       (snd (snd (archiveTeam ex_helpers ex_shortid 7 ex_trio ''t1'' (ex_ctx ''u1'')))))
     = [None, None, None]
   \<and> map pub_mutatorId (publishedOn NOTIFICATIONS_ADDED
       (snd (snd (archiveTeam ex_helpers ex_shortid 7 ex_trio ''t1'' (ex_ctx ''u1'')))))
     = [None, None, None]
   \<and> map pub_operationId (publishedOn TEAM
       (snd (snd (archiveTeam ex_helpers ex_shortid 7 ex_trio ''t1'' (ex_ctx ''u1'')))))
     = [Some ''op1'']
   \<and> map pub_mutatorId (publishedOn TEAM
       (snd (snd (archiveTeam ex_helpers ex_shortid 7 ex_trio ''t1'' (ex_ctx ''u1'')))))
     = [Some ''sock1'']"
  by (simp add: ex_helpers_def ex_shortid_def ex_ctx_def ex_member_def ex_team_def
        ex_store_def ex_trio_def archiveTeam_def archiveQuery_def get_Team_def projectCount_def
      activeUserIds_def Let_def publishedOn_simps publishedOn_append publishedOn_authTokens
      publishedOn_notifications makeNotifications_def enumerate_eq_zip upt_rec
      spread_operationId_def spread_mutatorId_def)

section \<open>Properties of AddGitHubRepo\<close>

lemma find_key_None:
  "find (\<lambda>g. gh_teamId g = t \<and> gh_nameWithOwner g = n) (tbl_GitHub st) = None
     \<longleftrightarrow> rowsFor st t n = []"
  by (auto simp add: rowsFor_def find_None_iff filter_empty_conv)

lemma rehydrate_fields:
  "gh_id (rehydrate u now g) = gh_id g"
  "gh_teamId (rehydrate u now g) = gh_teamId g"
  "gh_nameWithOwner (rehydrate u now g) = gh_nameWithOwner g"
  "gh_adminUserId (rehydrate u now g) = u"
  "gh_userIds (rehydrate u now g) = [u]"
  "gh_isActive (rehydrate u now g)"
  by (simp_all add: rehydrate_def)

lemma find_rehydrated:
  "find (\<lambda>x. gh_id x = k) (map (\<lambda>x. if gh_id x = k then rehydrate u now x else x) xs)
   = map_option (rehydrate u now) (find (\<lambda>x. gh_id x = k) xs)"
  by (induction xs) (auto simp add: rehydrate_fields)

lemma find_snoc_fresh:
  "k \<notin> set (map gh_id xs) \<Longrightarrow>
     find (\<lambda>x. gh_id x = k) (xs @ [r]) = (if gh_id r = k then Some r else None)"
  by (induction xs) auto

lemma find_by_id:
  "find (\<lambda>x. gh_id x = k) xs = Some y \<Longrightarrow> gh_id y = k"
  by (induction xs) (auto split: if_splits)

lemma createOrRehydrate_rows:
  assumes "createOrRehydrate newId now u t n st = Inr (row, st1)"
  shows "integrationRows st1 =
           (if rowsFor st t n = [] then integrationRows st @ [(newId, t, n)]
            else integrationRows st)"
    and "gh_isActive row" and "gh_adminUserId row = u" and "gh_userIds row = [u]"
    and "find (\<lambda>x. gh_id x = gh_id row) (tbl_GitHub st1) = Some row"
proof -
  let ?key = "\<lambda>g. gh_teamId g = t \<and> gh_nameWithOwner g = n"
  show "integrationRows st1 =
           (if rowsFor st t n = [] then integrationRows st @ [(newId, t, n)]
            else integrationRows st)"
    using assms
    by (auto simp add: createOrRehydrate_def integrationRows_def rehydrate_fields Let_def
        find_key_None[symmetric]
        split: option.splits if_splits)
  show "gh_isActive row" "gh_adminUserId row = u" "gh_userIds row = [u]"
    using assms
    by (auto simp add: createOrRehydrate_def rehydrate_fields Let_def
        split: option.splits if_splits)
  show "find (\<lambda>x. gh_id x = gh_id row) (tbl_GitHub st1) = Some row"
  proof (cases "find ?key (tbl_GitHub st)")
    case None
    with assms show ?thesis
      by (auto simp add: createOrRehydrate_def Let_def find_snoc_fresh split: if_splits)
  next
    case (Some g)
    with assms obtain g' where g': "find (\<lambda>x. gh_id x = gh_id g) (tbl_GitHub st) = Some g'"
      and row: "row = rehydrate u now g'"
      and st1: "tbl_GitHub st1 =
        map (\<lambda>x. if gh_id x = gh_id g then rehydrate u now x else x) (tbl_GitHub st)"
      by (auto simp add: createOrRehydrate_def Let_def split: option.splits if_splits)
    from g' have "gh_id g' = gh_id g"
      by (rule find_by_id)
    then have "gh_id row = gh_id g"
      by (simp add: row rehydrate_fields)
    then show ?thesis
      by (simp add: st1 find_rehydrated g' row)
  qed
qed



lemma AddGitHubRepo_success:
  assumes "AddGitHubRepo h api tok mj shortid now st teamId nwo ctx
             = (Inr (GithubRepoAddedPayload repo), st', ev, bg)"
  shows "\<exists>st1 ps joined.
           createOrRehydrate (shortid 0) now (getUserId h (authToken ctx)) teamId nwo st
             = Inr (repo_row repo, st1)
           \<and> mj st1 [repo_row repo] ps = (joined, st')"
  using assms
  by (fastforce simp add: AddGitHubRepo_def standardError_def Let_def
      split: if_splits option.splits sum.splits prod.splits)


lemma AddGitHubRepo_background:
  assumes "AddGitHubRepo h api tok mj shortid now st teamId nwo ctx = (r, st', ev, bg)"
  shows "bg = [] \<or> (\<exists>accessToken key. bg = [createRepoWebhook api accessToken nwo key,
                                              createOrgWebhook api accessToken nwo])"
  using assms
  by (auto simp add: AddGitHubRepo_def standardError_def Let_def
      split: if_splits option.splits sum.splits prod.splits)

lemma createRepoWebhook_posts:
  "length (filter isHookPost (snd (createRepoWebhook api accessToken nwo key))) \<le> 1"
  by (simp add: createRepoWebhook_def split: hooks_response.splits)

lemma createOrgWebhook_posts:
  "length (filter isHookPost (snd (createOrgWebhook api accessToken nwo))) \<le> 1"
  by (simp add: createOrgWebhook_def Let_def split: hooks_response.splits profile_response.splits)

lemma AddGitHubRepo_foreground:
  "foreground (AddGitHubRepo h api tok mj shortid now st teamId nwo ctx)
     = foreground (AddGitHubRepo h api' tok mj shortid now st teamId nwo ctx)"
  by (simp add: foreground_def AddGitHubRepo_def Let_def
      split: if_splits option.splits sum.splits prod.splits)






lemma createOrRehydrate_update:
  assumes "find (\<lambda>g. gh_teamId g = t \<and> gh_nameWithOwner g = n) (tbl_GitHub st) = Some g"
    and "createOrRehydrate newId now u t n st = Inr (row, st1)"
  shows "st1 = st\<lparr>tbl_GitHub := map (\<lambda>x. if gh_id x = gh_id g then rehydrate u now x else x)
                                  (tbl_GitHub st)\<rparr>"
    and "gh_id row = gh_id g"
    and "gh_updatedAt row = now"
proof -
  from assms obtain g' where g': "find (\<lambda>x. gh_id x = gh_id g) (tbl_GitHub st) = Some g'"
    and row: "row = rehydrate u now g'"
    and st1: "st1 = st\<lparr>tbl_GitHub := map (\<lambda>x. if gh_id x = gh_id g then rehydrate u now x else x)
                                  (tbl_GitHub st)\<rparr>"
    by (auto simp add: createOrRehydrate_def Let_def split: option.splits if_splits)
  from st1 show "st1 = st\<lparr>tbl_GitHub := map (\<lambda>x. if gh_id x = gh_id g then rehydrate u now x else x)
                                  (tbl_GitHub st)\<rparr>" .
  from g' have "gh_id g' = gh_id g"
    by (rule find_by_id)
  then show "gh_id row = gh_id g"
    by (simp add: row rehydrate_fields)
  show "gh_updatedAt row = now"
    by (simp add: row rehydrate_def)
qed

lemma rehydrated_rows:
  assumes "x \<in> set (map (\<lambda>y. if gh_id y = k then rehydrate u now y else y) xs)"
    and "gh_id x = k"
  shows "gh_adminUserId x = u \<and> gh_userIds x = [u] \<and> gh_isActive x"
proof -
  from assms(1) have "\<exists>y. x = (if gh_id y = k then rehydrate u now y else y)"
    by (simp only: set_map image_iff) blast
  then obtain y where x: "x = (if gh_id y = k then rehydrate u now y else y)"
    by (elim exE)
  show ?thesis
  proof (cases "gh_id y = k")
    case True
    with x show ?thesis
      by (simp add: rehydrate_fields)
  next
    case False
    with x assms(2) show ?thesis
      by simp
  qed
qed




text \<open>
  C7. What AddGitHubRepo returns, the store it leaves and the events it publishes are the
  same whatever the provider answers to the webhook calls. One call sends at most two
  requests that create a hook, one for the repository and one for the organization. And a
  call that returns the repository has marked the integration record active in the store:
  the query that did so returned the record of the payload, and the table holds it.
\<close>

theorem webhooks_do_not_matter:
  "foreground (AddGitHubRepo h api tok mj shortid now st teamId nwo ctx)
     = foreground (AddGitHubRepo h api' tok mj shortid now st teamId nwo ctx)
   \<and> (AddGitHubRepo h api tok mj shortid now st teamId nwo ctx = (r, st', ev, bg) \<longrightarrow>
        length (filter isHookPost (concat (map snd bg))) \<le> 2)
   \<and> (AddGitHubRepo h api tok mj shortid now st teamId nwo ctx
         = (Inr (GithubRepoAddedPayload repo), st', ev, bg) \<longrightarrow>
        gh_isActive (repo_row repo)
        \<and> (\<exists>st1. createOrRehydrate (shortid 0) now (getUserId h (authToken ctx)) teamId nwo st
                    = Inr (repo_row repo, st1)
                  \<and> find (\<lambda>x. gh_id x = gh_id (repo_row repo)) (tbl_GitHub st1)
                    = Some (repo_row repo)))"
proof (intro conjI impI)
  show "foreground (AddGitHubRepo h api tok mj shortid now st teamId nwo ctx)
      = foreground (AddGitHubRepo h api' tok mj shortid now st teamId nwo ctx)"
    by (rule AddGitHubRepo_foreground)
next
  assume run: "AddGitHubRepo h api tok mj shortid now st teamId nwo ctx = (r, st', ev, bg)"
  from AddGitHubRepo_background[OF run]
  show "length (filter isHookPost (concat (map snd bg))) \<le> 2"
  proof (elim disjE exE)
    assume "bg = []"
    then show ?thesis
      by simp
  next
    fix accessToken key
    assume bg: "bg = [createRepoWebhook api accessToken nwo key,
                      createOrgWebhook api accessToken nwo]"
    from createRepoWebhook_posts[of api accessToken nwo key]
      createOrgWebhook_posts[of api accessToken nwo]
    show ?thesis
      by (simp add: bg)
  qed
next
  assume run: "AddGitHubRepo h api tok mj shortid now st teamId nwo ctx
      = (Inr (GithubRepoAddedPayload repo), st', ev, bg)"
  from AddGitHubRepo_success[OF run] obtain st1
    where q: "createOrRehydrate (shortid 0) now (getUserId h (authToken ctx)) teamId nwo st
                = Inr (repo_row repo, st1)"
    by blast
  from createOrRehydrate_rows(2)[OF q] show "gh_isActive (repo_row repo)" .
  from q createOrRehydrate_rows(5)[OF q]
  show "\<exists>st1. createOrRehydrate (shortid 0) now (getUserId h (authToken ctx)) teamId nwo st
                = Inr (repo_row repo, st1)
              \<and> find (\<lambda>x. gh_id x = gh_id (repo_row repo)) (tbl_GitHub st1) = Some (repo_row repo)"
    by blast
qed

theorem webhooks_do_not_matter_witness:
  "fst (createRepoWebhook ex_api_down ''token1'' ''acme/site'' 42) = Rejected
   \<and> fst (createOrgWebhook ex_api_down ''token1'' ''acme/site'') = Rejected
   \<and> foreground ex_second
       = foreground (AddGitHubRepo ex_helpers ex_api_up ex_tokenCanAccessRepo ex_maybeJoinRepos
                       ex_shortid 8 (fst (snd ex_first)) ''t1'' ''acme/site'' (ex_ctx ''u1''))
   \<and> length (filter isHookPost (concat (map snd (snd (snd (snd ex_second)))))) \<le> 2
   \<and> (\<exists>repo. fst ex_second = Inr (GithubRepoAddedPayload repo) \<and> gh_isActive (repo_row repo))"
proof -
  let ?st = "fst (snd ex_first)"
  have rejected: "fst (createRepoWebhook ex_api_down ''token1'' ''acme/site'' 42) = Rejected"
    "fst (createOrgWebhook ex_api_down ''token1'' ''acme/site'') = Rejected"
    by (simp_all add: createRepoWebhook_def createOrgWebhook_def ex_api_down_def)
  have "\<exists>repo. fst ex_second = Inr (GithubRepoAddedPayload repo)"
    by (simp add: ex_second_def ex_first_def AddGitHubRepo_def createOrRehydrate_def allTeamProviders_def rehydrate_def
        standardError_def Let_def ex_helpers_def ex_shortid_def ex_ctx_def ex_member_def ex_team_def
        ex_store_def ex_trio_def ex_api_up_def ex_api_down_def
        ex_tokenCanAccessRepo_def ex_maybeJoinRepos_def)
  then obtain repo where payload: "fst ex_second = Inr (GithubRepoAddedPayload repo)"
    by blast
  then have run: "ex_second = (Inr (GithubRepoAddedPayload repo), fst (snd ex_second),
      fst (snd (snd ex_second)), snd (snd (snd ex_second)))"
    by (metis prod.collapse)
  note inst = webhooks_do_not_matter[where h = ex_helpers and api = ex_api_down
      and api' = ex_api_up and tok = ex_tokenCanAccessRepo and mj = ex_maybeJoinRepos
      and shortid = ex_shortid and now = 8 and st = ?st and teamId = "''t1''"
      and nwo = "''acme/site''" and ctx = "ex_ctx ''u1''"
      and r = "Inr (GithubRepoAddedPayload repo)" and repo = repo
      and st' = "fst (snd ex_second)" and ev = "fst (snd (snd ex_second))"
      and bg = "snd (snd (snd ex_second))", folded ex_second_def]
  from inst have same: "foreground ex_second
      = foreground (AddGitHubRepo ex_helpers ex_api_up ex_tokenCanAccessRepo ex_maybeJoinRepos
                      ex_shortid 8 ?st ''t1'' ''acme/site'' (ex_ctx ''u1''))"
    by (rule conjunct1)
  from inst run
  have posts: "length (filter isHookPost (concat (map snd (snd (snd (snd ex_second)))))) \<le> 2"
    by blast
  from inst run have active: "gh_isActive (repo_row repo)"
    by blast
  from payload active have "\<exists>repo. fst ex_second = Inr (GithubRepoAddedPayload repo)
      \<and> gh_isActive (repo_row repo)"
    by blast
  with rejected same posts show ?thesis
    by simp
qed

text \<open>
  C10. When the team already has an integration record for the repository and AddGitHubRepo
  returns the repository, the store that the resolver hands to the join step, whose result is
  its final store, is the store it was given with the records of the existing id rewritten:
  each of them has the caller as its administrator and the caller alone as its user ids,
  whoever was joined before, it is active, and no record was inserted. The record found
  under that id is the one the query returned.
\<close>

theorem rehydrate_overwrites_admin_and_userIds:
  assumes existing: "find (\<lambda>g. gh_teamId g = teamId \<and> gh_nameWithOwner g = nwo) (tbl_GitHub st)
                       = Some g"
    and run: "AddGitHubRepo h api tok mj shortid now st teamId nwo ctx
                = (Inr (GithubRepoAddedPayload repo), st', ev, bg)"
  shows "\<exists>st1 ps joined.
           mj st1 [repo_row repo] ps = (joined, st')
         \<and> st1 = st\<lparr>tbl_GitHub :=
                    map (\<lambda>x. if gh_id x = gh_id g
                             then rehydrate (getUserId h (authToken ctx)) now x else x)
                      (tbl_GitHub st)\<rparr>
         \<and> find (\<lambda>x. gh_id x = gh_id g) (tbl_GitHub st1) = Some (repo_row repo)
         \<and> (\<forall>x \<in> set (tbl_GitHub st1). gh_id x = gh_id g \<longrightarrow>
              gh_adminUserId x = getUserId h (authToken ctx)
              \<and> gh_userIds x = [getUserId h (authToken ctx)]
              \<and> gh_isActive x)
         \<and> length (tbl_GitHub st1) = length (tbl_GitHub st)"
proof -
  let ?u = "getUserId h (authToken ctx)"
  from AddGitHubRepo_success[OF run] obtain st1 ps joined
    where q: "createOrRehydrate (shortid 0) now ?u teamId nwo st = Inr (repo_row repo, st1)"
      and j: "mj st1 [repo_row repo] ps = (joined, st')"
    by blast
  note upd = createOrRehydrate_update[OF existing q]
  have tbl: "tbl_GitHub st1 = map (\<lambda>x. if gh_id x = gh_id g then rehydrate ?u now x else x)
      (tbl_GitHub st)"
    by (subst upd(1)) simp
  from createOrRehydrate_rows(5)[OF q] upd(2)
  have found: "find (\<lambda>x. gh_id x = gh_id g) (tbl_GitHub st1) = Some (repo_row repo)"
    by simp
  have all: "\<forall>x \<in> set (tbl_GitHub st1). gh_id x = gh_id g \<longrightarrow>
      gh_adminUserId x = ?u \<and> gh_userIds x = [?u] \<and> gh_isActive x"
    unfolding tbl using rehydrated_rows by blast
  have len: "length (tbl_GitHub st1) = length (tbl_GitHub st)"
    by (simp add: tbl)
  from j upd(1) found all len show ?thesis
    by blast
qed

theorem rehydrate_overwrites_admin_and_userIds_witness:
  "find (\<lambda>g. gh_teamId g = ''t1'' \<and> gh_nameWithOwner g = ''acme/site'') (tbl_GitHub ex_linked)
     = Some ex_integration
   \<and> gh_id ex_integration = ''g1''
   \<and> gh_adminUserId ex_integration = ''u2''
   \<and> gh_userIds ex_integration = [''u2'', ''u3'']
   \<and> added (fst (AddGitHubRepo ex_helpers ex_api_up ex_tokenCanAccessRepo ex_maybeJoinRepos
                     ex_shortid 7 ex_linked ''t1'' ''acme/site'' (ex_ctx ''u1'')))
   \<and> (\<exists>stored. find (\<lambda>x. gh_id x = ''g1'')
                   (tbl_GitHub (fst (snd (AddGitHubRepo ex_helpers ex_api_up ex_tokenCanAccessRepo
                      ex_maybeJoinRepos ex_shortid 7 ex_linked ''t1'' ''acme/site'' (ex_ctx ''u1'')))))
                 = Some stored
              \<and> gh_adminUserId stored = ''u1''
              \<and> gh_userIds stored = [''u1'']
              \<and> gh_isActive stored)"
proof -
  let ?run = "AddGitHubRepo ex_helpers ex_api_up ex_tokenCanAccessRepo ex_maybeJoinRepos
    ex_shortid 7 ex_linked ''t1'' ''acme/site'' (ex_ctx ''u1'')"
  have existing: "find (\<lambda>g. gh_teamId g = ''t1'' \<and> gh_nameWithOwner g = ''acme/site'')
      (tbl_GitHub ex_linked) = Some ex_integration"
    by (simp add: ex_member_def ex_team_def ex_store_def ex_trio_def ex_integration_def
        ex_linked_def)
  have before: "gh_adminUserId ex_integration = ''u2''" "gh_userIds ex_integration = [''u2'', ''u3'']"
    "gh_id ex_integration = ''g1''"
    by (simp_all add: ex_integration_def)
  have caller: "getUserId ex_helpers (authToken (ex_ctx ''u1'')) = ''u1''"
    by (simp add: ex_helpers_def ex_ctx_def)
  have "\<exists>repo. fst ?run = Inr (GithubRepoAddedPayload repo)"
    by (simp add: AddGitHubRepo_def createOrRehydrate_def allTeamProviders_def rehydrate_def
        standardError_def Let_def ex_helpers_def ex_shortid_def ex_ctx_def ex_member_def
        ex_team_def ex_store_def ex_trio_def ex_api_up_def ex_tokenCanAccessRepo_def
        ex_maybeJoinRepos_def ex_integration_def ex_linked_def)
  then obtain repo where payload: "fst ?run = Inr (GithubRepoAddedPayload repo)"
    by blast
  then have run: "?run = (Inr (GithubRepoAddedPayload repo), fst (snd ?run), fst (snd (snd ?run)),
      snd (snd (snd ?run)))"
    by (metis prod.collapse)
  from rehydrate_overwrites_admin_and_userIds[OF existing run] obtain st1 ps joined
    where j: "ex_maybeJoinRepos st1 [repo_row repo] ps = (joined, fst (snd ?run))"
      and found: "find (\<lambda>x. gh_id x = gh_id ex_integration) (tbl_GitHub st1) = Some (repo_row repo)"
      and all: "\<forall>x \<in> set (tbl_GitHub st1). gh_id x = gh_id ex_integration \<longrightarrow>
          gh_adminUserId x = getUserId ex_helpers (authToken (ex_ctx ''u1''))
          \<and> gh_userIds x = [getUserId ex_helpers (authToken (ex_ctx ''u1''))]
          \<and> gh_isActive x"
    by blast
  from j have final: "fst (snd ?run) = st1"
    by (simp add: ex_maybeJoinRepos_def)
  from found have "repo_row repo \<in> set (tbl_GitHub st1)" "gh_id (repo_row repo) = gh_id ex_integration"
    by (auto simp add: find_Some_iff)
  with all caller have "gh_adminUserId (repo_row repo) = ''u1''
      \<and> gh_userIds (repo_row repo) = [''u1''] \<and> gh_isActive (repo_row repo)"
    by auto
  with found before(3) have "\<exists>stored. find (\<lambda>x. gh_id x = ''g1'') (tbl_GitHub (fst (snd ?run)))
        = Some stored
      \<and> gh_adminUserId stored = ''u1'' \<and> gh_userIds stored = [''u1''] \<and> gh_isActive stored"
    by (simp add: final)
  with existing before payload show ?thesis
    by simp
qed

section \<open>Properties of inviteTeamMembers\<close>

lemma reactivation_of_removed:
  assumes "m \<in> set removed"
  shows "\<exists>k. \<lparr>re_notificationId = shortid k, re_teamMemberId = tm_id m,
               re_preferredName = tm_preferredName m\<rparr>
           \<in> set (map (\<lambda>(k, m). \<lparr>re_notificationId = shortid k, re_teamMemberId = tm_id m,
                                    re_preferredName = tm_preferredName m\<rparr>)
                    (enumerate 0 removed))"
proof -
  from assms obtain i where "i < length removed" "removed ! i = m"
    by (auto simp add: in_set_conv_nth)
  then have "(i, m) \<in> set (enumerate 0 removed)"
    by (simp add: in_set_enumerate_eq)
  then show ?thesis
    by (intro exI[of _ i]) force
qed

lemma reactivated_ids:
  "map re_teamMemberId
     (map (\<lambda>(k, m). \<lparr>re_notificationId = shortid k, re_teamMemberId = tm_id m,
                      re_preferredName = tm_preferredName m\<rparr>) (enumerate 0 removed))
   = map tm_id removed"
proof -
  have "map re_teamMemberId
      (map (\<lambda>(k, m). \<lparr>re_notificationId = shortid k, re_teamMemberId = tm_id m,
                       re_preferredName = tm_preferredName m\<rparr>) (enumerate 0 removed))
    = map tm_id (map snd (enumerate 0 removed))"
    unfolding map_map comp_def split_def by simp
  then show ?thesis
    by (simp only: map_snd_enumerate)
qed

lemma reactivated_rows:
  "map tm_id (map (\<lambda>m. if m \<in> S then m\<lparr>tm_isNotRemoved := True\<rparr> else m) xs) = map tm_id xs"
  "map (\<lambda>m. (tm_userId m, tm_teamId m))
     (map (\<lambda>m. if m \<in> S then m\<lparr>tm_isNotRemoved := True\<rparr> else m) xs)
   = map (\<lambda>m. (tm_userId m, tm_teamId m)) xs"
  by (induction xs) auto

lemma rejoin_events:
  "p \<in> set (publishedOn TEAM_MEMBER (concat (map (\<lambda>re.
       [Publish \<lparr>pub_channel = TEAM_MEMBER, pub_entity = teamId,
          pub_body = TeamMemberData (re_teamMemberId re) REJOIN_TEAM teamId
                       (re_preferredName re) ADDED,
          pub_operationId = oid, pub_mutatorId = mid\<rparr>,
        Publish \<lparr>pub_channel = TEAM, pub_entity = f re,
          pub_body = TeamNotificationData teamId (re_notificationId re) ADDED,
          pub_operationId = oid, pub_mutatorId = mid\<rparr>]) res)))
   \<longleftrightarrow> (\<exists>re \<in> set res. p = \<lparr>pub_channel = TEAM_MEMBER, pub_entity = teamId,
          pub_body = TeamMemberData (re_teamMemberId re) REJOIN_TEAM teamId
                       (re_preferredName re) ADDED,
          pub_operationId = oid, pub_mutatorId = mid\<rparr>)"
  by (induction res) (auto simp add: publishedOn_simps publishedOn_append)

text \<open>
  C8. A call of the invitation resolver that passes the authorization check, with an invitee
  whose TeamMember row of the team is removed: afterwards the table has the same rows under
  the same ids, users and teams (none was inserted), the row of the invitee is there with
  \<open>isNotRemoved\<close> set, its id is among the reactivated team member ids of the
  payload, an event with a \<open>REJOIN_TEAM\<close> notification for it was published on the
  team-member topic of the team, and every event the resolver published on that topic carries
  a \<open>REJOIN_TEAM\<close> notification.
\<close>

theorem reinvite_reactivates:
  assumes auth: "requireOrgLeaderOrTeamMember h st (authToken ctx) teamId"
    and member: "m \<in> set (tbl_TeamMember st)" "tm_teamId m = teamId"
    and removed: "\<not> tm_isNotRemoved m"
    and invited: "tm_email m \<in> set (map inv_email invitees)"
    and run: "inviteTeamMembers_resolve h (inviteTeamMembers shortid) st invitees teamId ctx
                = (r, st', ev)"
  shows "map tm_id (tbl_TeamMember st') = map tm_id (tbl_TeamMember st)
       \<and> map (\<lambda>x. (tm_userId x, tm_teamId x)) (tbl_TeamMember st')
           = map (\<lambda>x. (tm_userId x, tm_teamId x)) (tbl_TeamMember st)
       \<and> m\<lparr>tm_isNotRemoved := True\<rparr> \<in> set (tbl_TeamMember st')
       \<and> (\<exists>payload. r = Inr payload \<and> tm_id m \<in> set (reactivatedTeamMemberIds payload))
       \<and> \<lparr>pub_channel = TEAM_MEMBER, pub_entity = teamId,
           pub_body = TeamMemberData (tm_id m) REJOIN_TEAM teamId (tm_preferredName m) ADDED,
           pub_operationId = Some (share (dataLoader ctx)),
           pub_mutatorId = Some (socketId ctx)\<rparr> \<in> set (publishedOn TEAM_MEMBER ev)
       \<and> (\<forall>p \<in> set (publishedOn TEAM_MEMBER ev).
            \<exists>teamMemberId preferredName.
              pub_body p = TeamMemberData teamMemberId REJOIN_TEAM teamId preferredName ADDED)"
proof -
  define rem where "rem = removedInvitees st invitees teamId"
  define res where "res = map (\<lambda>(k, m). \<lparr>re_notificationId = shortid k, re_teamMemberId = tm_id m,
      re_preferredName = tm_preferredName m\<rparr>) (enumerate 0 rem)"
  have in_rem: "m \<in> set rem"
    using member removed invited by (simp add: rem_def removedInvitees_def)
  from run auth have st': "tbl_TeamMember st' =
      map (\<lambda>m. if m \<in> set rem then m\<lparr>tm_isNotRemoved := True\<rparr> else m) (tbl_TeamMember st)"
    and r: "r = Inr \<lparr>reactivatedTeamMemberIds = map re_teamMemberId res,
        results = filter (\<lambda>e. e \<notin> set (map tm_email rem)) (map inv_email invitees)\<rparr>"
    and ev: "ev = concat (map (\<lambda>re.
       [Publish \<lparr>pub_channel = TEAM_MEMBER, pub_entity = teamId,
          pub_body = TeamMemberData (re_teamMemberId re) REJOIN_TEAM teamId
                       (re_preferredName re) ADDED,
          pub_operationId = Some (share (dataLoader ctx)),
          pub_mutatorId = Some (socketId ctx)\<rparr>,
        Publish \<lparr>pub_channel = TEAM, pub_entity = fst (fromTeamMemberId h (re_teamMemberId re)),
          pub_body = TeamNotificationData teamId (re_notificationId re) ADDED,
          pub_operationId = Some (share (dataLoader ctx)),
          pub_mutatorId = Some (socketId ctx)\<rparr>]) res)"
    by (auto simp add: inviteTeamMembers_resolve_def inviteTeamMembers_def Let_def rem_def res_def
        spread_operationId_def spread_mutatorId_def)
  have ids: "map tm_id (tbl_TeamMember st') = map tm_id (tbl_TeamMember st)"
    and pairs: "map (\<lambda>x. (tm_userId x, tm_teamId x)) (tbl_TeamMember st')
        = map (\<lambda>x. (tm_userId x, tm_teamId x)) (tbl_TeamMember st)"
    by (simp_all only: st' reactivated_rows)
  have active: "m\<lparr>tm_isNotRemoved := True\<rparr> \<in> set (tbl_TeamMember st')"
    using member(1) in_rem by (force simp add: st')
  have re_ids: "map re_teamMemberId res = map tm_id rem"
    unfolding res_def by (rule reactivated_ids)
  have "tm_id m \<in> set (map tm_id rem)"
    using in_rem by simp
  then have "tm_id m \<in> set (map re_teamMemberId res)"
    by (simp only: re_ids)
  then have payload: "\<exists>payload. r = Inr payload \<and> tm_id m \<in> set (reactivatedTeamMemberIds payload)"
    by (simp add: r)
  from reactivation_of_removed[OF in_rem, of shortid] obtain k
    where re: "\<lparr>re_notificationId = shortid k, re_teamMemberId = tm_id m,
                 re_preferredName = tm_preferredName m\<rparr> \<in> set res"
    unfolding res_def by blast
  note events = rejoin_events[where teamId = teamId and oid = "Some (share (dataLoader ctx))"
      and mid = "Some (socketId ctx)"
      and f = "\<lambda>re. fst (fromTeamMemberId h (re_teamMemberId re))" and res = res]
  have rejoin: "\<lparr>pub_channel = TEAM_MEMBER, pub_entity = teamId,
        pub_body = TeamMemberData (tm_id m) REJOIN_TEAM teamId (tm_preferredName m) ADDED,
        pub_operationId = Some (share (dataLoader ctx)),
        pub_mutatorId = Some (socketId ctx)\<rparr> \<in> set (publishedOn TEAM_MEMBER ev)"
    using re by (simp only: ev events) force
  have all_rejoin: "\<forall>p \<in> set (publishedOn TEAM_MEMBER ev).
      \<exists>teamMemberId preferredName.
        pub_body p = TeamMemberData teamMemberId REJOIN_TEAM teamId preferredName ADDED"
  proof (intro ballI)
    fix p
    assume "p \<in> set (publishedOn TEAM_MEMBER ev)"
    then obtain re :: Reactivation where "p = \<lparr>pub_channel = TEAM_MEMBER, pub_entity = teamId,
        pub_body = TeamMemberData (re_teamMemberId re) REJOIN_TEAM teamId (re_preferredName re) ADDED,
        pub_operationId = Some (share (dataLoader ctx)),
        pub_mutatorId = Some (socketId ctx)\<rparr>"
      by (simp only: ev events) blast
    then show "\<exists>teamMemberId preferredName.
        pub_body p = TeamMemberData teamMemberId REJOIN_TEAM teamId preferredName ADDED"
      by simp
  qed
  from ids pairs active payload rejoin all_rejoin show ?thesis
    by blast
qed

theorem reinvite_reactivates_witness:
  "requireOrgLeaderOrTeamMember ex_helpers ex_removed (authToken (ex_ctx ''u1'')) ''t1''
   \<and> tbl_TeamMember ex_removed = [ex_member ''u1'' True True, ex_member ''u2'' False False]
   \<and> \<not> tm_isNotRemoved (ex_member ''u2'' False False)
   \<and> tbl_TeamMember (fst (snd (inviteTeamMembers_resolve ex_helpers (inviteTeamMembers ex_shortid)
         ex_removed [\<lparr>inv_email = ''u2@example.com''\<rparr>] ''t1'' (ex_ctx ''u1''))))
       = [ex_member ''u1'' True True, ex_member ''u2'' False True]
   \<and> fst (inviteTeamMembers_resolve ex_helpers (inviteTeamMembers ex_shortid)
         ex_removed [\<lparr>inv_email = ''u2@example.com''\<rparr>] ''t1'' (ex_ctx ''u1''))
       = Inr \<lparr>reactivatedTeamMemberIds = [''u2::t1''], results = []\<rparr>
   \<and> \<lparr>pub_channel = TEAM_MEMBER, pub_entity = ''t1'',
       pub_body = TeamMemberData ''u2::t1'' REJOIN_TEAM ''t1'' ''u2'' ADDED,
       pub_operationId = Some ''op1'', pub_mutatorId = Some ''sock1''\<rparr>
       \<in> set (publishedOn TEAM_MEMBER
             (snd (snd (inviteTeamMembers_resolve ex_helpers (inviteTeamMembers ex_shortid)
                ex_removed [\<lparr>inv_email = ''u2@example.com''\<rparr>] ''t1'' (ex_ctx ''u1'')))))"
proof -
  let ?run = "inviteTeamMembers_resolve ex_helpers (inviteTeamMembers ex_shortid)
    ex_removed [\<lparr>inv_email = ''u2@example.com''\<rparr>] ''t1'' (ex_ctx ''u1'')"
  have auth: "requireOrgLeaderOrTeamMember ex_helpers ex_removed (authToken (ex_ctx ''u1'')) ''t1''"
    by (simp add: ex_helpers_def ex_shortid_def ex_ctx_def ex_member_def ex_team_def
        ex_store_def ex_removed_def)
  have rows: "tbl_TeamMember ex_removed = [ex_member ''u1'' True True, ex_member ''u2'' False False]"
    by (simp add: ex_helpers_def ex_shortid_def ex_ctx_def ex_member_def ex_team_def
        ex_store_def ex_removed_def)
  have member: "ex_member ''u2'' False False \<in> set (tbl_TeamMember ex_removed)"
    "tm_teamId (ex_member ''u2'' False False) = ''t1''"
    by (simp_all add: ex_helpers_def ex_shortid_def ex_ctx_def ex_member_def ex_team_def
        ex_store_def ex_removed_def)
  have removed: "\<not> tm_isNotRemoved (ex_member ''u2'' False False)"
    by (simp add: ex_helpers_def ex_shortid_def ex_ctx_def ex_member_def ex_team_def
        ex_store_def ex_removed_def)
  have invited: "tm_email (ex_member ''u2'' False False)
      \<in> set (map inv_email [\<lparr>inv_email = ''u2@example.com''\<rparr>])"
    by (simp add: ex_helpers_def ex_shortid_def ex_ctx_def ex_member_def ex_team_def
        ex_store_def ex_removed_def)
  have run: "?run = (fst ?run, fst (snd ?run), snd (snd ?run))"
    by simp
  have fields: "tm_id (ex_member ''u2'' False False) = ''u2::t1''"
    "tm_preferredName (ex_member ''u2'' False False) = ''u2''"
    "share (dataLoader (ex_ctx ''u1'')) = ''op1''" "socketId (ex_ctx ''u1'') = ''sock1''"
    by (simp_all add: ex_helpers_def ex_shortid_def ex_ctx_def ex_member_def ex_team_def
        ex_store_def ex_removed_def)
  have after: "tbl_TeamMember (fst (snd ?run))
      = [ex_member ''u1'' True True, ex_member ''u2'' False True]"
    by (simp add: inviteTeamMembers_resolve_def inviteTeamMembers_def removedInvitees_def
        Let_def ex_helpers_def ex_shortid_def ex_ctx_def ex_member_def ex_team_def
        ex_store_def ex_removed_def)
  have payload: "fst ?run = Inr \<lparr>reactivatedTeamMemberIds = [''u2::t1''], results = []\<rparr>"
    by (simp add: inviteTeamMembers_resolve_def inviteTeamMembers_def removedInvitees_def
        Let_def ex_helpers_def ex_shortid_def ex_ctx_def ex_member_def ex_team_def
        ex_store_def ex_removed_def enumerate_eq_zip)
  from reinvite_reactivates[OF auth member removed invited run]
  have "\<lparr>pub_channel = TEAM_MEMBER, pub_entity = ''t1'',
       pub_body = TeamMemberData ''u2::t1'' REJOIN_TEAM ''t1'' ''u2'' ADDED,
       pub_operationId = Some ''op1'', pub_mutatorId = Some ''sock1''\<rparr>
       \<in> set (publishedOn TEAM_MEMBER (snd (snd ?run)))"
    by (simp add: fields)
  with auth rows removed after payload show ?thesis
    by simp
qed

end
